theory Spec2Isabelle
  imports Complex_Main "HOL-Library.AList" "HOL-Library.Multiset"
begin

section \<open>Scoring engine of the collapse-archetype quiz (scoring-engine.js)\<close>

text \<open>
  The embedding follows \<^verbatim>\<open>scoring-engine.js\<close> function by function.
  Conventions of the model:
  \<^item> scores, weights and points are \<^typ>\<open>real\<close> and the arithmetic on them is exact;
    where a value that is not a number can arise, or where a claim depends on rounding
    (the two vector functions), numbers are of the type \<open>number\<close> below, with NaN and
    the infinities, and the vector functions round every result to binary64; a decimal
    literal of the source is the real it denotes;
  \<^item> a plain object used as a dictionary (a score map, an answer's point mapping, the
    trait catalogue, the question map) is the list of its own properties in insertion
    order, which is the order \<^verbatim>\<open>Object.entries\<close> enumerates string keys in; a read
    that finds no own property falls through to \<^verbatim>\<open>Object.prototype\<close>;
  \<^item> \<^verbatim>\<open>throw\<close> is a result \<open>Inl e\<close> of a sum type, \<open>Inr\<close> is a normal return;
  \<^item> \<^verbatim>\<open>console.warn\<close> has no effect on any result and is left out.
\<close>

subsection \<open>Configuration constants\<close>

definition TIE_TOLERANCE :: real where
  "TIE_TOLERANCE = 0.05"

definition MINIMUM_VARIANCE :: real where
  "MINIMUM_VARIANCE = 0.1"

definition CONFIDENCE_THRESHOLDS_STRONG :: real where
  "CONFIDENCE_THRESHOLDS_STRONG = 0.5"

definition CONFIDENCE_THRESHOLDS_MODERATE :: real where
  "CONFIDENCE_THRESHOLDS_MODERATE = 0.2"

subsection \<open>Errors\<close>

datatype error =
    NoScoresProvided      \<comment> \<open>'No archetype scores provided'\<close>
  | NoValidScores         \<comment> \<open>'No valid scores recorded - all archetypes have zero points'\<close>
  | TotalWeightZero       \<comment> \<open>'Total question weight is zero'\<close>
  | DimensionMismatch     \<comment> \<open>'Vectors must have same dimensionality'\<close>
  | TypeError             \<comment> \<open>the engine's own error for a property read of undefined or null,
                              or a call of something that is not a function\<close>

subsection \<open>Data model\<close>

type_synonym scoreMap = "(string \<times> real) list"

record traitProfile =
  awareness :: real
  affect :: real
  agency :: real
  time :: real
  relationality :: real
  posture :: real

record answer =
  a_id :: string
  a_archetypeScores :: "(string \<times> real) list option"

record question =
  q_id :: string
  q_text :: string
  q_weight :: "real option"
  q_answers :: "answer list"

record response =
  r_questionId :: string
  r_answerId :: string

subsection \<open>Numbers with NaN and the infinities, and rounding to binary64\<close>

text \<open>
  \<open>Num r\<close> is a finite number; the two zeros are not told apart. \<open>binary64 x\<close> is the
  double nearest to the real \<open>x\<close>, ties going to the even significand: 53 significant
  bits, subnormals below \<open>2 ^ - 1022\<close> in steps of \<open>2 ^ - 1074\<close>, and an infinity from
  \<open>2 ^ 1024\<close> on. The four operations follow IEEE 754 on NaN and the infinities and
  round a finite result with the function given: \<open>binary64\<close> for the engine's floating
  point, \<open>Num\<close> where the model computes exactly.
\<close>

datatype number = NaN | PosInfinity | NegInfinity | Num real

definition roundToEven :: "real \<Rightarrow> int" where
  "roundToEven y =
     (let f = \<lfloor>y\<rfloor>
      in if y - of_int f < 1 / 2 then f
         else if 1 / 2 < y - of_int f then f + 1
         else if even f then f else f + 1)"

definition binary64 :: "real \<Rightarrow> number" where
  "binary64 x =
     (if x = 0 then Num 0
      else
        (let e = max (\<lfloor>log 2 \<bar>x\<bar>\<rfloor> - 52) (- 1074);
             r = of_int (roundToEven (x / 2 powr of_int e)) * 2 powr of_int e
         in if 2 ^ 1024 \<le> \<bar>r\<bar> then (if 0 < x then PosInfinity else NegInfinity)
            else Num r))"

fun negate :: "number \<Rightarrow> number" where
  "negate NaN = NaN"
| "negate PosInfinity = NegInfinity"
| "negate NegInfinity = PosInfinity"
| "negate (Num a) = Num (- a)"

fun add_with :: "(real \<Rightarrow> number) \<Rightarrow> number \<Rightarrow> number \<Rightarrow> number" where
  "add_with rnd (Num a) (Num b) = rnd (a + b)"
| "add_with rnd NaN b = NaN"
| "add_with rnd a NaN = NaN"
| "add_with rnd PosInfinity NegInfinity = NaN"
| "add_with rnd NegInfinity PosInfinity = NaN"
| "add_with rnd PosInfinity b = PosInfinity"
| "add_with rnd NegInfinity b = NegInfinity"
| "add_with rnd a PosInfinity = PosInfinity"
| "add_with rnd a NegInfinity = NegInfinity"

fun mul_with :: "(real \<Rightarrow> number) \<Rightarrow> number \<Rightarrow> number \<Rightarrow> number" where
  "mul_with rnd (Num a) (Num b) = rnd (a * b)"
| "mul_with rnd NaN b = NaN"
| "mul_with rnd a NaN = NaN"
| "mul_with rnd (Num a) b = (if a = 0 then NaN else if 0 < a then b else negate b)"
| "mul_with rnd a (Num b) = (if b = 0 then NaN else if 0 < b then a else negate a)"
| "mul_with rnd PosInfinity b = b"
| "mul_with rnd NegInfinity b = negate b"

fun div_with :: "(real \<Rightarrow> number) \<Rightarrow> number \<Rightarrow> number \<Rightarrow> number" where
  "div_with rnd (Num a) (Num b) =
     (if b = 0 then (if a = 0 then NaN else if 0 < a then PosInfinity else NegInfinity)
      else rnd (a / b))"
| "div_with rnd NaN b = NaN"
| "div_with rnd a NaN = NaN"
| "div_with rnd (Num a) b = Num 0"
| "div_with rnd a (Num b) = (if 0 \<le> b then a else negate a)"
| "div_with rnd a b = NaN"

fun sqrt_with :: "(real \<Rightarrow> number) \<Rightarrow> number \<Rightarrow> number" where
  "sqrt_with rnd (Num a) = (if a < 0 then NaN else rnd (sqrt a))"
| "sqrt_with rnd PosInfinity = PosInfinity"
| "sqrt_with rnd a = NaN"

text \<open>The engine's \<^verbatim>\<open>+\<close>, \<^verbatim>\<open>-\<close>, \<^verbatim>\<open>*\<close>, \<^verbatim>\<open>/\<close> and \<^verbatim>\<open>Math.sqrt\<close> on doubles.\<close>

definition js_add :: "number \<Rightarrow> number \<Rightarrow> number" where
  "js_add = add_with binary64"

definition js_sub :: "number \<Rightarrow> number \<Rightarrow> number" where
  "js_sub a b = add_with binary64 a (negate b)"

definition js_mul :: "number \<Rightarrow> number \<Rightarrow> number" where
  "js_mul = mul_with binary64"

definition js_div :: "number \<Rightarrow> number \<Rightarrow> number" where
  "js_div = div_with binary64"

definition Math_sqrt :: "number \<Rightarrow> number" where
  "Math_sqrt = sqrt_with binary64"

subsection \<open>Plain objects and Object.prototype\<close>

text \<open>
  An object created by \<^verbatim>\<open>{}\<close> inherits from \<^verbatim>\<open>Object.prototype\<close>. A read
  \<^verbatim>\<open>obj[key]\<close> that finds no own property therefore finds, under the names below, a
  function, and under \<^verbatim>\<open>__proto__\<close> the prototype object itself: a value that is
  neither \<^verbatim>\<open>undefined\<close> nor falsy, and that has none of the properties the engine
  goes on to read. \<open>getProperty\<close> tells the three outcomes apart. An assignment
  \<^verbatim>\<open>obj[key] = v\<close> creates or overwrites an own property, except that assigning a
  number or a string to \<^verbatim>\<open>__proto__\<close> has no effect (\<open>setProperty\<close>); assigning an
  object to it replaces the prototype, which only the question maps can do.
\<close>

definition OBJECT_PROTOTYPE :: "string list" where
  "OBJECT_PROTOTYPE =
     [''constructor'', ''__defineGetter__'', ''__defineSetter__'', ''hasOwnProperty'',
      ''__lookupGetter__'', ''__lookupSetter__'', ''isPrototypeOf'', ''propertyIsEnumerable'',
      ''toString'', ''valueOf'', ''__proto__'', ''toLocaleString'']"

datatype 'a lookup = Own 'a | Inherited | Absent

definition getProperty :: "(string \<times> 'a) list \<Rightarrow> string \<Rightarrow> 'a lookup" where
  "getProperty obj key =
     (case map_of obj key of
        Some v \<Rightarrow> Own v
      | None \<Rightarrow> if key \<in> set OBJECT_PROTOTYPE then Inherited else Absent)"

definition setProperty :: "string \<Rightarrow> 'a \<Rightarrow> (string \<times> 'a) list \<Rightarrow> (string \<times> 'a) list" where
  "setProperty key v obj = (if key = ''__proto__'' then obj else AList.update key v obj)"

subsection \<open>Loops whose callback may throw\<close>

text \<open>\<open>forEachE\<close>, \<open>mapE\<close> and \<open>findE\<close> are \<^verbatim>\<open>forEach\<close> (with the state the callback
  updates), \<^verbatim>\<open>map\<close> and \<^verbatim>\<open>find\<close>; the first error ends the loop.\<close>

fun forEachE :: "('s \<Rightarrow> 'a \<Rightarrow> error + 's) \<Rightarrow> 's \<Rightarrow> 'a list \<Rightarrow> error + 's" where
  "forEachE f s [] = Inr s"
| "forEachE f s (x # xs) = (case f s x of Inl e \<Rightarrow> Inl e | Inr s' \<Rightarrow> forEachE f s' xs)"

fun mapE :: "('a \<Rightarrow> error + 'b) \<Rightarrow> 'a list \<Rightarrow> error + 'b list" where
  "mapE f [] = Inr []"
| "mapE f (x # xs) =
     (case f x of
        Inl e \<Rightarrow> Inl e
      | Inr y \<Rightarrow> (case mapE f xs of Inl e \<Rightarrow> Inl e | Inr ys \<Rightarrow> Inr (y # ys)))"

fun findE :: "('a \<Rightarrow> error + bool) \<Rightarrow> 'a list \<Rightarrow> error + 'a option" where
  "findE p [] = Inr None"
| "findE p (x # xs) =
     (case p x of Inl e \<Rightarrow> Inl e | Inr found \<Rightarrow> if found then Inr (Some x) else findE p xs)"

subsection \<open>Array.prototype.sort and String.prototype.localeCompare\<close>

text \<open>
  \<^verbatim>\<open>xs.sort(cmp)\<close> is modelled as a stable insertion sort driven by the comparator
  (\<open>cmp a b \<le> 0\<close> keeps \<open>a\<close> in front of \<open>b\<close>). For a consistent comparator this is the
  order every engine produces; for the two comparators with the 0.0001 band, which are not
  transitive, the engine's order is implementation-defined and only the fact that the
  result is a rearrangement of the input is relied upon.
\<close>

fun insert_by :: "('a \<Rightarrow> 'a \<Rightarrow> real) \<Rightarrow> 'a \<Rightarrow> 'a list \<Rightarrow> 'a list" where
  "insert_by cmp x [] = [x]"
| "insert_by cmp x (y # ys) = (if cmp x y \<le> 0 then x # y # ys else y # insert_by cmp x ys)"

definition sort_by :: "('a \<Rightarrow> 'a \<Rightarrow> real) \<Rightarrow> 'a list \<Rightarrow> 'a list" where
  "sort_by cmp xs = foldr (insert_by cmp) xs []"

text \<open>
  \<^verbatim>\<open>a.localeCompare(b)\<close>: negative, zero or positive. The model compares code units
  lexicographically; the locale's collation rules are not modelled.
\<close>

fun str_less :: "string \<Rightarrow> string \<Rightarrow> bool" where
  "str_less [] [] = False"
| "str_less [] (y # ys) = True"
| "str_less (x # xs) [] = False"
| "str_less (x # xs) (y # ys) =
     (if (of_char x :: nat) < of_char y then True
      else if (of_char y :: nat) < of_char x then False
      else str_less xs ys)"

definition localeCompare :: "string \<Rightarrow> string \<Rightarrow> real" where
  "localeCompare a b = (if a = b then 0 else if str_less a b then -1 else 1)"

subsection \<open>determineDominantArchetypes\<close>

record dominantResult =
  dr_dominant :: "string list"
  dr_scores :: scoreMap
  dr_maxScore :: real
  dr_threshold :: real
  dr_hasTie :: bool
  dr_variance :: real

text \<open>\<^verbatim>\<open>Math.max(...xs)\<close> and \<^verbatim>\<open>Math.min(...xs)\<close> on a list that is not empty,
  given as its first element and the rest.\<close>

definition Math_max :: "real \<Rightarrow> real list \<Rightarrow> real" where
  "Math_max x xs = fold max xs x"

definition Math_min :: "real \<Rightarrow> real list \<Rightarrow> real" where
  "Math_min x xs = fold min xs x"

text \<open>The comparator of the dominant entries: score descending, then id ascending when
  the scores differ by less than 0.0001.\<close>

definition dominantCompare :: "string \<times> real \<Rightarrow> string \<times> real \<Rightarrow> real" where
  "dominantCompare a b =
     (let scoreDiff = snd b - snd a
      in if \<bar>scoreDiff\<bar> < 0.0001 then localeCompare (fst a) (fst b) else scoreDiff)"

definition determineDominantArchetypes :: "scoreMap \<Rightarrow> real \<Rightarrow> error + dominantResult" where
  "determineDominantArchetypes scores tieTolerance =
     (case scores of
        [] \<Rightarrow> Inl NoScoresProvided
      | e # es \<Rightarrow>
          (let scoreEntries = scores;
               maxScore = Math_max (snd e) (map snd es);
               minScore = Math_min (snd e) (map snd es);
               variance = maxScore - minScore
           in if variance < MINIMUM_VARIANCE \<and> maxScore = 0 then Inl NoValidScores
              else
                (let threshold = maxScore * (1 - tieTolerance);
                     dominantEntries =
                       sort_by dominantCompare
                         (filter (\<lambda>(_, score). score \<ge> threshold) scoreEntries)
                 in Inr \<lparr> dr_dominant = map fst dominantEntries,
                          dr_scores =
                            foldl (\<lambda>dominantScores (archetypeId, score).
                                     setProperty archetypeId score dominantScores)
                              [] dominantEntries,
                          dr_maxScore = maxScore,
                          dr_threshold = threshold,
                          dr_hasTie = (length (map fst dominantEntries) > 1),
                          dr_variance = variance \<rparr>)))"

subsection \<open>The trait catalogue\<close>

text \<open>\<^verbatim>\<open>ARCHETYPE_TRAIT_PROFILES\<close>, in source order; \<open>profileOf id\<close> is the read
  \<^verbatim>\<open>ARCHETYPE_TRAIT_PROFILES[id]\<close> of that plain object. \<open>dimensionsOf profile\<close> are the six
  dimensions of a catalogued profile in the order awareness, affect, agency, time,
  relationality, posture. Of an inherited function or object each of the six properties is
  \<^verbatim>\<open>undefined\<close>, which every arithmetic operation turns into NaN:
  \<open>undefinedDimensions\<close>.\<close>

definition ARCHETYPE_TRAIT_PROFILES :: "(string \<times> traitProfile) list" where
  "ARCHETYPE_TRAIT_PROFILES =
   [(''ostrich'',
       \<lparr> awareness = 0.2, affect = 0.0, agency = 0.2, time = 0.0, relationality = 0.0, posture = 0.0 \<rparr>),
    (''blissed-out-yogi'',
       \<lparr> awareness = 0.9, affect = 0.8, agency = 0.5, time = 0.0, relationality = 0.0, posture = 0.0 \<rparr>),
    (''illusionist'',
       \<lparr> awareness = 0.5, affect = 0.0, agency = 0.9, time = 0.0, relationality = 1.0, posture = 1.0 \<rparr>),
    (''normalizer'',
       \<lparr> awareness = 0.2, affect = 0.0, agency = 0.5, time = 0.0, relationality = 1.0, posture = 0.0 \<rparr>),
    (''prepper'',
       \<lparr> awareness = 0.9, affect = 0.0, agency = 0.9, time = 1.0, relationality = 0.0, posture = 1.0 \<rparr>),
    (''prophet-of-doom'',
       \<lparr> awareness = 0.9, affect = - 0.7, agency = 0.5, time = 1.0, relationality = 0.0, posture = 1.0 \<rparr>),
    (''alt-right-collapse-bro'',
       \<lparr> awareness = 0.5, affect = - 0.7, agency = 0.9, time = 1.0, relationality = 1.0, posture = 1.0 \<rparr>),
    (''evangelical-nationalist'',
       \<lparr> awareness = 0.9, affect = 0.8, agency = 0.5, time = 1.0, relationality = 1.0, posture = 1.0 \<rparr>),
    (''apocaloptimist'',
       \<lparr> awareness = 0.9, affect = 0.8, agency = 0.9, time = 1.0, relationality = 0.0, posture = 1.0 \<rparr>),
    (''trickster'',
       \<lparr> awareness = 0.5, affect = 0.0, agency = 0.9, time = 0.0, relationality = 0.0, posture = 1.0 \<rparr>),
    (''woke-lefty-socialist'',
       \<lparr> awareness = 0.9, affect = - 0.7, agency = 0.9, time = 1.0, relationality = 1.0, posture = 1.0 \<rparr>),
    (''salvager'',
       \<lparr> awareness = 0.5, affect = 0.0, agency = 0.9, time = 0.0, relationality = 0.0, posture = 1.0 \<rparr>),
    (''sacred-keeper'',
       \<lparr> awareness = 0.9, affect = 0.8, agency = 0.5, time = - 1.0, relationality = 1.0, posture = 0.0 \<rparr>),
    (''everyday-hustler'',
       \<lparr> awareness = 0.5, affect = 0.0, agency = 0.9, time = 0.0, relationality = 0.0, posture = 1.0 \<rparr>),
    (''already-collapsed'',
       \<lparr> awareness = 0.9, affect = - 0.7, agency = 0.2, time = 0.0, relationality = 0.0, posture = 0.0 \<rparr>),
    (''extracted'',
       \<lparr> awareness = 0.2, affect = 0.0, agency = 0.2, time = 0.0, relationality = 0.0, posture = 0.0 \<rparr>),
    (''child-witness'',
       \<lparr> awareness = 0.2, affect = 0.0, agency = 0.2, time = 0.0, relationality = 0.0, posture = 0.0 \<rparr>),
    (''opportunist-elite'',
       \<lparr> awareness = 0.9, affect = 0.0, agency = 0.9, time = 1.0, relationality = 0.0, posture = 1.0 \<rparr>),
    (''conspiracy-theorist'',
       \<lparr> awareness = 0.5, affect = - 0.7, agency = 0.5, time = 0.0, relationality = 0.0, posture = 0.0 \<rparr>)]"

definition profileOf :: "string \<Rightarrow> traitProfile lookup" where
  "profileOf archetypeId = getProperty ARCHETYPE_TRAIT_PROFILES archetypeId"

definition dimensionsOf :: "traitProfile \<Rightarrow> number list" where
  "dimensionsOf profile =
     [Num (awareness profile), Num (affect profile), Num (agency profile), Num (time profile),
      Num (relationality profile), Num (posture profile)]"

definition undefinedDimensions :: "number list" where
  "undefinedDimensions = [NaN, NaN, NaN, NaN, NaN, NaN]"

subsection \<open>calculateArchetypeScores\<close>

text \<open>
  A property of the \<^verbatim>\<open>scores\<close> object holds a number or, once \<^verbatim>\<open>+=\<close> has been
  applied to an inherited function, a string: the source text of the function followed by
  the digits of the number added (\<open>Concatenated\<close>; the characters themselves are not
  modelled). \<open>initialScores\<close> is the first \<^verbatim>\<open>forEach\<close> (every catalogued id set to
  0). \<open>addPoints\<close> is the innermost callback: \<^verbatim>\<open>scores[archetypeId] !== undefined\<close>
  holds for an own property and for an inherited one, and \<^verbatim>\<open>+=\<close> then adds numbers,
  appends to a string, or turns the inherited function into a string and stores it;
  for \<^verbatim>\<open>__proto__\<close> the string is assigned to the prototype and dropped.
\<close>

datatype jsString = FunctionSource string | Concatenated jsString real

datatype scoreValue = Number real | Text jsString

type_synonym rawScores = "(string \<times> scoreValue) list"

definition initialScores :: rawScores where
  "initialScores =
     fold (\<lambda>archetypeId scores. setProperty archetypeId (Number 0) scores)
       (map fst ARCHETYPE_TRAIT_PROFILES) []"

definition addPoints :: "real \<Rightarrow> rawScores \<Rightarrow> string \<times> real \<Rightarrow> rawScores" where
  "addPoints weight scores entry =
     (case entry of (archetypeId, points) \<Rightarrow>
        (case getProperty scores archetypeId of
           Own (Number s) \<Rightarrow> setProperty archetypeId (Number (s + weight * points)) scores
         | Own (Text t) \<Rightarrow> setProperty archetypeId (Text (Concatenated t (weight * points))) scores
         | Inherited \<Rightarrow>
             setProperty archetypeId
               (Text (Concatenated (FunctionSource archetypeId) (weight * points))) scores
         | Absent \<Rightarrow> setProperty archetypeId (Number (weight * points)) scores))"

text \<open>
  The question map is filled by \<^verbatim>\<open>questionMap[q.id] = q\<close>: a later question with the
  same id replaces an earlier one, and a question whose id is \<^verbatim>\<open>__proto__\<close> becomes
  the prototype of the map instead of a property. The pair holds the own properties and
  that prototype, if any. \<open>lookupQuestion\<close> is the read
  \<^verbatim>\<open>questionMap[response.questionId]\<close> together with the test \<^verbatim>\<open>!question\<close>: it
  finds a question, or nothing (\<^verbatim>\<open>undefined\<close> or a falsy value), or a value that
  passes the test and is no question: an inherited function, the prototype, or one of
  the properties \<^verbatim>\<open>id\<close>, \<^verbatim>\<open>text\<close>, \<^verbatim>\<open>weight\<close>, \<^verbatim>\<open>answers\<close> of a question
  that has become the prototype. On such a value \<^verbatim>\<open>question.answers\<close> is
  \<^verbatim>\<open>undefined\<close> and the call of \<^verbatim>\<open>find\<close> raises a TypeError.
\<close>

type_synonym questionMap = "(string \<rightharpoonup> question) \<times> question option"

definition buildQuestionMap :: "question list \<Rightarrow> questionMap" where
  "buildQuestionMap questions =
     fold (\<lambda>q (own, proto).
             if q_id q = ''__proto__'' then (own, Some q) else (own(q_id q \<mapsto> q), proto))
       questions (Map.empty, None)"

datatype resolved = Question question | NotAQuestion | NotFound

definition lookupQuestion :: "questionMap \<Rightarrow> string \<Rightarrow> resolved" where
  "lookupQuestion questionMap key =
     (case questionMap of (own, proto) \<Rightarrow>
        (case own key of
           Some q \<Rightarrow> Question q
         | None \<Rightarrow>
             (case proto of
                Some q \<Rightarrow>
                  if key = ''__proto__'' then Question q
                  else if key = ''id'' then NotAQuestion
                  else if key = ''text'' then (if q_text q = [] then NotFound else NotAQuestion)
                  else if key = ''weight'' \<and> q_weight q \<noteq> None
                       then (if q_weight q = Some 0 then NotFound else NotAQuestion)
                  else if key = ''answers'' then NotAQuestion
                  else if key \<in> set OBJECT_PROTOTYPE then NotAQuestion else NotFound
              | None \<Rightarrow> if key \<in> set OBJECT_PROTOTYPE then NotAQuestion else NotFound)))"

text \<open>\<open>scoreResponse\<close> is the callback of \<^verbatim>\<open>userResponses.forEach\<close>, the scores being
  its state.\<close>

definition scoreResponse :: "questionMap \<Rightarrow> rawScores \<Rightarrow> response \<Rightarrow> error + rawScores" where
  "scoreResponse questionMap scores response =
     (case lookupQuestion questionMap (r_questionId response) of
        NotFound \<Rightarrow> Inr scores
      | NotAQuestion \<Rightarrow> Inl TypeError
      | Question question \<Rightarrow>
          (case find (\<lambda>a. a_id a = r_answerId response) (q_answers question) of
             None \<Rightarrow> Inr scores
           | Some selectedAnswer \<Rightarrow>
               (let weight = (case q_weight question of Some w \<Rightarrow> w | None \<Rightarrow> 1.0)
                in case a_archetypeScores selectedAnswer of
                     None \<Rightarrow> Inr scores
                   | Some archetypeScores \<Rightarrow> Inr (foldl (addPoints weight) scores archetypeScores))))"

definition calculateArchetypeScores :: "question list \<Rightarrow> response list \<Rightarrow> error + rawScores" where
  "calculateArchetypeScores questions userResponses =
     forEachE (scoreResponse (buildQuestionMap questions)) initialScores userResponses"

text \<open>The scores as numbers, when every property of the object holds a number; and the
  score object that holds the given numbers.\<close>

fun numericScores :: "rawScores \<Rightarrow> scoreMap option" where
  "numericScores [] = Some []"
| "numericScores ((archetypeId, Number score) # rest) =
     map_option (\<lambda>scores. (archetypeId, score) # scores) (numericScores rest)"
| "numericScores ((archetypeId, Text t) # rest) = None"

definition scoreObject :: "scoreMap \<Rightarrow> rawScores" where
  "scoreObject scores = map (\<lambda>(archetypeId, score). (archetypeId, Number score)) scores"

text \<open>
  The right-hand side of the conservation property, from the specification's words: a
  response is processed when its question id resolves (to the last question declared with
  that id) and its answer id resolves to an answer of that question (the first with that
  id); it then contributes the question's weight, 1 when absent, times the sum of the
  answer's point values.
\<close>

definition processedPoints :: "question list \<Rightarrow> response \<Rightarrow> real" where
  "processedPoints questions r =
     (case find (\<lambda>q. q_id q = r_questionId r) (rev questions) of
        None \<Rightarrow> 0
      | Some q \<Rightarrow>
          (case find (\<lambda>a. a_id a = r_answerId r) (q_answers q) of
             None \<Rightarrow> 0
           | Some a \<Rightarrow>
               (case q_weight q of None \<Rightarrow> 1 | Some w \<Rightarrow> w) *
               (case a_archetypeScores a of None \<Rightarrow> 0 | Some pts \<Rightarrow> sum_list (map snd pts))))"

definition scoreTotal :: "scoreMap \<Rightarrow> real" where
  "scoreTotal scores = sum_list (map snd scores)"

text \<open>The quiz and the responses of the repository's test of the invariants
  (\<^verbatim>\<open>mockQuestions\<close>, question ids 1, 2, 3 as property keys).\<close>

definition mockQuestions :: "question list" where
  "mockQuestions =
   [\<lparr> q_id = ''1'', q_text = ''How do you view collapse?'', q_weight = Some 1.0, q_answers =
        [\<lparr> a_id = ''a'', a_archetypeScores = Some [(''ostrich'', 3)] \<rparr>,
         \<lparr> a_id = ''b'', a_archetypeScores = Some [(''prepper'', 2), (''prophet-of-doom'', 2)] \<rparr>,
         \<lparr> a_id = ''c'', a_archetypeScores = Some [(''apocaloptimist'', 3)] \<rparr>] \<rparr>,
    \<lparr> q_id = ''2'', q_text = ''What is your response?'', q_weight = Some 1.5, q_answers =
        [\<lparr> a_id = ''a'', a_archetypeScores = Some [(''prepper'', 2)] \<rparr>,
         \<lparr> a_id = ''b'', a_archetypeScores = Some [(''prophet-of-doom'', 2)] \<rparr>,
         \<lparr> a_id = ''c'', a_archetypeScores = Some [(''blissed-out-yogi'', 2)] \<rparr>] \<rparr>,
    \<lparr> q_id = ''3'', q_text = ''Who do you trust?'', q_weight = Some 1.0, q_answers =
        [\<lparr> a_id = ''a'', a_archetypeScores = Some [(''prepper'', 1), (''ostrich'', 1)] \<rparr>,
         \<lparr> a_id = ''b'', a_archetypeScores = Some [(''sacred-keeper'', 2)] \<rparr>,
         \<lparr> a_id = ''c'', a_archetypeScores = Some [(''conspiracy-theorist'', 3)] \<rparr>] \<rparr>]"

definition mockResponses :: "response list" where
  "mockResponses =
   [\<lparr> r_questionId = ''1'', r_answerId = ''b'' \<rparr>,
    \<lparr> r_questionId = ''2'', r_answerId = ''a'' \<rparr>,
    \<lparr> r_questionId = ''3'', r_answerId = ''a'' \<rparr>]"

text \<open>A one-question quiz whose answer awards points to the archetype id
  \<^verbatim>\<open>constructor\<close>, which names nothing in the catalogue.\<close>

definition constructorQuiz :: "question list" where
  "constructorQuiz =
     [\<lparr> q_id = ''q1'', q_text = ''Q'', q_weight = None,
        q_answers = [\<lparr> a_id = ''a'', a_archetypeScores = Some [(''constructor'', 2)] \<rparr>] \<rparr>]"

subsection \<open>calculateConfidence\<close>

text \<open>The level is the string the source returns; \<open>None\<close> is \<^verbatim>\<open>null\<close>.\<close>

record confidenceResult =
  cf_score :: real
  cf_level :: string
  cf_firstPlace :: "string option"
  cf_secondPlace :: "string option"

definition calculateConfidence :: "scoreMap \<Rightarrow> confidenceResult" where
  "calculateConfidence scores =
     (let sortedEntries =
            sort_by (\<lambda>a b. snd b - snd a) (filter (\<lambda>(_, score). score > 0) scores)
      in case sortedEntries of
           [] \<Rightarrow> \<lparr> cf_score = 0, cf_level = ''NONE'', cf_firstPlace = None, cf_secondPlace = None \<rparr>
         | [only] \<Rightarrow>
             \<lparr> cf_score = 1.0, cf_level = ''PERFECT'', cf_firstPlace = Some (fst only),
               cf_secondPlace = None \<rparr>
         | (firstPlace, firstScore) # (secondPlace, secondScore) # _ \<Rightarrow>
             (let confidenceScore = (firstScore - secondScore) / firstScore;
                  level = (if confidenceScore \<ge> CONFIDENCE_THRESHOLDS_STRONG then ''STRONG''
                           else if confidenceScore \<ge> CONFIDENCE_THRESHOLDS_MODERATE then ''MODERATE''
                           else ''WEAK'')
              in \<lparr> cf_score = confidenceScore, cf_level = level, cf_firstPlace = Some firstPlace,
                   cf_secondPlace = Some secondPlace \<rparr>))"

text \<open>The strictly positive scores of a score map, from the specification's words.\<close>

definition positiveScores :: "scoreMap \<Rightarrow> real list" where
  "positiveScores scores = map snd (filter (\<lambda>(_, score). 0 < score) scores)"

subsection \<open>calculateVectorNorm and calculateCosineSimilarity\<close>

text \<open>
  The two vector functions compute in binary64: every product, sum, square root and
  quotient is rounded. \<^verbatim>\<open>reduce\<close> is a left fold; the callback of the dot product
  reads \<^verbatim>\<open>vector2[i]\<close> at the index of the element of \<^verbatim>\<open>vector1\<close>, which is in
  range once the lengths are known to be equal. An element that is \<^verbatim>\<open>undefined\<close>
  is given as NaN, which is what the arithmetic makes of it.
\<close>

definition calculateVectorNorm :: "number list \<Rightarrow> number" where
  "calculateVectorNorm vector =
     (let sumOfSquares = foldl (\<lambda>sum val. js_add sum (js_mul val val)) (Num 0) vector
      in Math_sqrt sumOfSquares)"

definition calculateCosineSimilarity :: "number list \<Rightarrow> number list \<Rightarrow> error + number" where
  "calculateCosineSimilarity vector1 vector2 =
     (if length vector1 \<noteq> length vector2 then Inl DimensionMismatch
      else
        (let dotProduct =
               foldl (\<lambda>sum (val, i). js_add sum (js_mul val (vector2 ! i))) (Num 0)
                 (zip vector1 [0..<length vector1]);
             norm1 = calculateVectorNorm vector1;
             norm2 = calculateVectorNorm vector2
         in if norm1 = Num 0 \<or> norm2 = Num 0 then Inr (Num 0)
            else Inr (js_div dotProduct (js_mul norm1 norm2))))"

subsection \<open>inferUserTraitVector\<close>

text \<open>
  The six properties of the \<^verbatim>\<open>traits\<close> object are kept as a list in the order of the
  returned array. \<open>inferStep\<close> is the callback of \<^verbatim>\<open>Object.entries(scores).forEach\<close>
  on the pair of \<^verbatim>\<open>traits\<close> and \<^verbatim>\<open>totalScore\<close>, with its two early returns:
  \<^verbatim>\<open>!profile\<close> holds for \<^verbatim>\<open>undefined\<close> only, so that an inherited function or
  object is taken for a profile, and \<^verbatim>\<open>score * profile.awareness\<close> is then NaN. The
  arithmetic on numbers is exact.
\<close>

definition inferStep :: "number list \<times> real \<Rightarrow> string \<times> real \<Rightarrow> number list \<times> real" where
  "inferStep acc entry =
     (case (acc, entry) of ((traits, totalScore), (archetypeId, score)) \<Rightarrow>
        if score \<le> 0 then (traits, totalScore)
        else
          (case profileOf archetypeId of
             Absent \<Rightarrow> (traits, totalScore)
           | Own profile \<Rightarrow>
               (map2 (\<lambda>trait dimension. add_with Num trait (mul_with Num (Num score) dimension))
                  traits (dimensionsOf profile),
                totalScore + score)
           | Inherited \<Rightarrow>
               (map2 (\<lambda>trait dimension. add_with Num trait (mul_with Num (Num score) dimension))
                  traits undefinedDimensions,
                totalScore + score)))"

definition inferUserTraitVector :: "scoreMap \<Rightarrow> number list" where
  "inferUserTraitVector scores =
     (case foldl inferStep ([Num 0, Num 0, Num 0, Num 0, Num 0, Num 0], 0) scores of
        (traits, totalScore) \<Rightarrow>
          if totalScore > 0 then map (\<lambda>trait. div_with Num trait (Num totalScore)) traits
          else traits)"

text \<open>
  The specification's side: the archetypes that contribute are those with a strictly
  positive score and a catalogued profile, in the order of the score map; a dimension of
  the inferred vector is their score-weighted mean of that dimension.
\<close>

definition contributing :: "scoreMap \<Rightarrow> (real \<times> traitProfile) list" where
  "contributing scores =
     concat (map (\<lambda>(archetypeId, score).
       (case map_of ARCHETYPE_TRAIT_PROFILES archetypeId of
          Some profile \<Rightarrow> if 0 < score then [(score, profile)] else []
        | None \<Rightarrow> [])) scores)"

definition weightedMean :: "(traitProfile \<Rightarrow> real) \<Rightarrow> scoreMap \<Rightarrow> real" where
  "weightedMean d scores =
     (\<Sum>(score, profile)\<leftarrow>contributing scores. score * d profile) /
     (\<Sum>(score, profile)\<leftarrow>contributing scores. score)"

subsection \<open>Radar chart geometry\<close>

text \<open>
  \<open>dimensions\<close> pairs each name of the source's array with the property it reads;
  \<open>radarPoint\<close> is the callback of \<^verbatim>\<open>dimensions.map\<close>. The argument of
  \<open>calculateRadarChartCoordinates\<close> is optional because \<open>scoreQuiz\<close> passes the result of a
  catalogue lookup: on \<^verbatim>\<open>undefined\<close> the first property read raises a TypeError.
  \<open>calculateRadarChartArea\<close> is the \<^verbatim>\<open>for\<close> loop over \<open>0..<n\<close>.
\<close>

record coordinate =
  c_dimension :: string
  c_angle :: real
  c_angleDegrees :: real
  c_radius :: real
  c_rawValue :: real
  c_x :: real
  c_y :: real

definition dimensions :: "(string \<times> (traitProfile \<Rightarrow> real)) list" where
  "dimensions =
     [(''awareness'', awareness), (''affect'', affect), (''agency'', agency),
      (''time'', time), (''relationality'', relationality), (''posture'', posture)]"

definition radarPoint :: "traitProfile \<Rightarrow> (string \<times> (traitProfile \<Rightarrow> real)) \<times> nat \<Rightarrow> coordinate" where
  "radarPoint traitProfile entry =
     (case entry of ((dimension, property), index) \<Rightarrow>
        (let rawValue = property traitProfile;
             value = (if dimension = ''affect'' \<or> dimension = ''time''
                      then (rawValue + 1) / 2 else rawValue);
             angleRadians = (real index / 6) * 2 * pi;
             radius = value;
             x = radius * cos angleRadians;
             y = radius * sin angleRadians
         in \<lparr> c_dimension = dimension, c_angle = angleRadians,
              c_angleDegrees = (angleRadians * 180) / pi, c_radius = radius,
              c_rawValue = rawValue, c_x = x, c_y = y \<rparr>))"

definition calculateRadarChartCoordinates :: "traitProfile option \<Rightarrow> error + coordinate list" where
  "calculateRadarChartCoordinates traitProfile =
     (case traitProfile of
        None \<Rightarrow> Inl TypeError
      | Some profile \<Rightarrow>
          Inr (map (radarPoint profile) (zip dimensions [0..<length dimensions])))"

definition calculateRadarChartArea :: "coordinate list \<Rightarrow> real" where
  "calculateRadarChartArea coordinates =
     (let n = length coordinates;
          area = foldl (\<lambda>area i.
                   (let current = coordinates ! i;
                        next = coordinates ! ((i + 1) mod n)
                    in area + (c_x current * c_y next - c_x next * c_y current)))
                 0 [0..<n]
      in \<bar>area\<bar> / 2)"

text \<open>The profile with every dimension at 1.0.\<close>

definition unitProfile :: traitProfile where
  "unitProfile = \<lparr> awareness = 1.0, affect = 1.0, agency = 1.0, time = 1.0,
                    relationality = 1.0, posture = 1.0 \<rparr>"

subsection \<open>breakTieWithTraits\<close>

text \<open>
  The function receives two references, to the array of tied ids and to the score object,
  and the claim about it is that neither is written to. Arrays and objects therefore live
  in a store: a list of cells, an address being an index and allocation appending a cell.
  \<^verbatim>\<open>tiedArchetypeIds.map\<close> allocates the array \<^verbatim>\<open>similarities\<close>,
  \<^verbatim>\<open>similarities.sort\<close> overwrites the cell of \<^verbatim>\<open>similarities\<close> in place,
  and \<^verbatim>\<open>similarities[0].archetypeId\<close> raises a TypeError on an empty array.
  \<open>inferUserTraitVector\<close> only reads the score object; its own temporaries never
  escape and are not stored. \<open>tieSimilarity\<close> is the callback of \<^verbatim>\<open>map\<close>: an id
  without any profile gets similarity 0, an id that names an inherited function or object
  is compared through six \<^verbatim>\<open>undefined\<close> dimensions. \<open>similarityCompare\<close> is the
  comparator as \<^verbatim>\<open>sort\<close> reads it: a result NaN counts as 0.
\<close>

datatype cell =
    IdArray "string list"
  | ScoreObject scoreMap
  | SimilarityArray "(string \<times> number) list"

type_synonym heap = "cell list"

definition tieSimilarity :: "number list \<Rightarrow> string \<Rightarrow> error + string \<times> number" where
  "tieSimilarity userTraitVector archetypeId =
     (case profileOf archetypeId of
        Absent \<Rightarrow> Inr (archetypeId, Num 0)
      | Own archetypeProfile \<Rightarrow>
          (case calculateCosineSimilarity userTraitVector (dimensionsOf archetypeProfile) of
             Inl e \<Rightarrow> Inl e
           | Inr similarity \<Rightarrow> Inr (archetypeId, similarity))
      | Inherited \<Rightarrow>
          (case calculateCosineSimilarity userTraitVector undefinedDimensions of
             Inl e \<Rightarrow> Inl e
           | Inr similarity \<Rightarrow> Inr (archetypeId, similarity)))"

definition similarityCompare :: "string \<times> number \<Rightarrow> string \<times> number \<Rightarrow> real" where
  "similarityCompare a b =
     (case js_sub (snd b) (snd a) of
        Num simDiff \<Rightarrow> if \<bar>simDiff\<bar> < 0.0001 then localeCompare (fst a) (fst b) else simDiff
      | PosInfinity \<Rightarrow> 1
      | NegInfinity \<Rightarrow> - 1
      | NaN \<Rightarrow> 0)"

definition breakTieWithTraits_heap :: "nat \<Rightarrow> nat \<Rightarrow> heap \<Rightarrow> (error + string) \<times> heap" where
  "breakTieWithTraits_heap tiedArchetypeIds allScores h =
     (if tiedArchetypeIds < length h \<and> allScores < length h then
        (case (h ! tiedArchetypeIds, h ! allScores) of
           (IdArray ids, ScoreObject scores) \<Rightarrow>
             (let userTraitVector = inferUserTraitVector scores
              in case mapE (tieSimilarity userTraitVector) ids of
                   Inl e \<Rightarrow> (Inl e, h)
                 | Inr sims \<Rightarrow>
                     (let similarities = length h;
                          h1 = h @ [SimilarityArray sims];
                          h2 = h1[similarities := SimilarityArray (sort_by similarityCompare sims)]
                      in case h2 ! similarities of
                           SimilarityArray (best # _) \<Rightarrow> (Inr (fst best), h2)
                         | _ \<Rightarrow> (Inl TypeError, h2)))
         | _ \<Rightarrow> (Inl TypeError, h))
      else (Inl TypeError, h))"

definition breakTieWithTraits :: "string list \<Rightarrow> scoreMap \<Rightarrow> error + string" where
  "breakTieWithTraits tiedArchetypeIds allScores =
     fst (breakTieWithTraits_heap 0 1 [IdArray tiedArchetypeIds, ScoreObject allScores])"

subsection \<open>normalizeScores, calculateScoreDistribution and scoreQuiz\<close>

text \<open>
  \<open>scoreQuiz\<close> runs the steps in the source's order and stops at the first error. An
  option left out of the \<^verbatim>\<open>options\<close> object is \<open>None\<close> and takes its default.
  \<^verbatim>\<open>dominantResult.dominant[0]\<close> is \<^verbatim>\<open>undefined\<close> (\<open>None\<close>) on an empty array, and
  \<^verbatim>\<open>undefined\<close> used as a key is the string \<^verbatim>\<open>undefined\<close> (\<open>keyOf\<close>).
  \<open>makeVisualizations\<close> is step 7, the body of \<^verbatim>\<open>if (includeVisualizations)\<close>.

  The steps from \<open>determineDominantArchetypes\<close> on are modelled on numbers. Where the
  engine would go on with something else (a string among the scores, NaN in the inferred
  vector, an inherited function or object taken for the primary score or profile), the
  model does not follow it: the outcome is \<open>Inr None\<close>, about which nothing is stated.
  \<open>Inr (Some result)\<close> is a returned result.
\<close>

definition normalizeScores :: "scoreMap \<Rightarrow> question list \<Rightarrow> error + scoreMap" where
  "normalizeScores scores questions =
     (let totalWeight =
            foldl (\<lambda>sum q. sum + (case q_weight q of Some w \<Rightarrow> w | None \<Rightarrow> 1.0)) 0 questions
      in if totalWeight = 0 then Inl TotalWeightZero
         else Inr (foldl (\<lambda>normalizedScores (archetypeId, score).
                            setProperty archetypeId (score / totalWeight) normalizedScores)
                     [] scores))"

record distributionEntry =
  d_archetypeId :: string
  d_score :: real
  d_percentage :: real

definition calculateScoreDistribution :: "scoreMap \<Rightarrow> distributionEntry list" where
  "calculateScoreDistribution scores =
     (let totalScore = foldl (\<lambda>sum score. sum + score) 0 (map snd scores)
      in if totalScore = 0
         then map (\<lambda>archetypeId. \<lparr> d_archetypeId = archetypeId, d_score = 0, d_percentage = 0 \<rparr>) (map fst scores)
         else sort_by (\<lambda>a b. d_score b - d_score a)
                (map (\<lambda>(archetypeId, score).
                        \<lparr> d_archetypeId = archetypeId, d_score = score,
                          d_percentage = (score / totalScore) * 100 \<rparr>) scores))"

record scoreOptions =
  o_tieTolerance :: "real option"
  o_breakTiesWithTraits :: "bool option"
  o_includeVisualizations :: "bool option"

definition defaultOptions :: scoreOptions where
  "defaultOptions =
     \<lparr> o_tieTolerance = None, o_breakTiesWithTraits = None, o_includeVisualizations = None \<rparr>"

record visualizations =
  v_radarCoordinates :: "coordinate list"
  v_radarArea :: real
  v_scoreDistribution :: "distributionEntry list"
  v_primaryArchetypeRadar :: "coordinate list"

record quizResult =
  res_primary :: "string option"
  res_primaryScore :: "real option"
  res_dominantArchetypes :: "string list"
  res_dominantScores :: scoreMap
  res_hasTie :: bool
  res_tieThreshold :: real
  res_allScores :: scoreMap
  res_normalizedScores :: scoreMap
  res_maxScore :: real
  res_variance :: real
  res_confidence :: confidenceResult
  res_userTraitProfile :: traitProfile
  res_userTraitVector :: "real list"
  res_visualizations :: "visualizations option"
  res_questionsAnswered :: nat
  res_totalQuestions :: nat
  res_isComplete :: bool

definition keyOf :: "string option \<Rightarrow> string" where
  "keyOf archetypeId = (case archetypeId of None \<Rightarrow> ''undefined'' | Some key \<Rightarrow> key)"

fun finiteVector :: "number list \<Rightarrow> real list option" where
  "finiteVector [] = Some []"
| "finiteVector (Num x # rest) = map_option (\<lambda>xs. x # xs) (finiteVector rest)"
| "finiteVector (other # rest) = None"

definition makeVisualizations ::
  "scoreMap \<Rightarrow> traitProfile \<Rightarrow> string option \<Rightarrow> error + visualizations option" where
  "makeVisualizations scores userTraitProfile primaryArchetype =
     (case calculateRadarChartCoordinates (Some userTraitProfile) of
        Inl e \<Rightarrow> Inl e
      | Inr radarCoordinates \<Rightarrow>
          (let area = calculateRadarChartArea radarCoordinates;
               scoreDistribution = calculateScoreDistribution scores
           in case profileOf (keyOf primaryArchetype) of
                Inherited \<Rightarrow> Inr None
              | Absent \<Rightarrow>
                  (case calculateRadarChartCoordinates None of
                     Inl e \<Rightarrow> Inl e
                   | Inr primaryCoordinates \<Rightarrow>
                       Inr (Some \<lparr> v_radarCoordinates = radarCoordinates, v_radarArea = area,
                                   v_scoreDistribution = scoreDistribution,
                                   v_primaryArchetypeRadar = primaryCoordinates \<rparr>))
              | Own primaryProfile \<Rightarrow>
                  (case calculateRadarChartCoordinates (Some primaryProfile) of
                     Inl e \<Rightarrow> Inl e
                   | Inr primaryCoordinates \<Rightarrow>
                       Inr (Some \<lparr> v_radarCoordinates = radarCoordinates, v_radarArea = area,
                                   v_scoreDistribution = scoreDistribution,
                                   v_primaryArchetypeRadar = primaryCoordinates \<rparr>))))"

definition assembleResult ::
  "question list \<Rightarrow> response list \<Rightarrow> scoreMap \<Rightarrow> dominantResult \<Rightarrow> confidenceResult \<Rightarrow>
   string option \<Rightarrow> real option \<Rightarrow> scoreMap \<Rightarrow> real list \<Rightarrow> traitProfile \<Rightarrow>
   visualizations option \<Rightarrow> quizResult" where
  "assembleResult questions userResponses scores dominantResult confidence primaryArchetype
     primaryScore normalizedScores userTraitVector userTraitProfile visualizations =
     \<lparr> res_primary = primaryArchetype,
       res_primaryScore = primaryScore,
       res_dominantArchetypes = dr_dominant dominantResult,
       res_dominantScores = dr_scores dominantResult,
       res_hasTie = dr_hasTie dominantResult,
       res_tieThreshold = dr_threshold dominantResult,
       res_allScores = scores,
       res_normalizedScores = normalizedScores,
       res_maxScore = dr_maxScore dominantResult,
       res_variance = dr_variance dominantResult,
       res_confidence = confidence,
       res_userTraitProfile = userTraitProfile,
       res_userTraitVector = userTraitVector,
       res_visualizations = visualizations,
       res_questionsAnswered = length userResponses,
       res_totalQuestions = length questions,
       res_isComplete = (length userResponses = length questions) \<rparr>"

definition scoreQuiz ::
  "question list \<Rightarrow> response list \<Rightarrow> scoreOptions \<Rightarrow> error + quizResult option" where
  "scoreQuiz questions userResponses options =
     (let tieTolerance = (case o_tieTolerance options of None \<Rightarrow> TIE_TOLERANCE | Some t \<Rightarrow> t);
          breakTiesWithTraits = (case o_breakTiesWithTraits options of None \<Rightarrow> True | Some b \<Rightarrow> b);
          includeVisualizations = (case o_includeVisualizations options of None \<Rightarrow> True | Some b \<Rightarrow> b)
      in case calculateArchetypeScores questions userResponses of
           Inl e \<Rightarrow> Inl e
         | Inr rawScores \<Rightarrow>
         (case numericScores rawScores of
            None \<Rightarrow> Inr None
          | Some scores \<Rightarrow>
         (case determineDominantArchetypes scores tieTolerance of
            Inl e \<Rightarrow> Inl e
          | Inr dominantResult \<Rightarrow>
         (let confidence = calculateConfidence scores
          in case (if dr_hasTie dominantResult \<and> breakTiesWithTraits
                   then map_sum id Some (breakTieWithTraits (dr_dominant dominantResult) scores)
                   else Inr (case dr_dominant dominantResult of [] \<Rightarrow> None | first # _ \<Rightarrow> Some first)) of
               Inl e \<Rightarrow> Inl e
             | Inr primaryArchetype \<Rightarrow>
         (case normalizeScores scores questions of
            Inl e \<Rightarrow> Inl e
          | Inr normalizedScores \<Rightarrow>
         (case finiteVector (inferUserTraitVector scores) of
            None \<Rightarrow> Inr None
          | Some userTraitVector \<Rightarrow>
         (let userTraitProfile =
                \<lparr> awareness = userTraitVector ! 0, affect = userTraitVector ! 1,
                  agency = userTraitVector ! 2, time = userTraitVector ! 3,
                  relationality = userTraitVector ! 4, posture = userTraitVector ! 5 \<rparr>
          in case (if includeVisualizations
                   then map_sum id (map_option Some)
                          (makeVisualizations scores userTraitProfile primaryArchetype)
                   else Inr (Some None)) of
               Inl e \<Rightarrow> Inl e
             | Inr None \<Rightarrow> Inr None
             | Inr (Some visualizations) \<Rightarrow>
                 (case getProperty scores (keyOf primaryArchetype) of
                    Inherited \<Rightarrow> Inr None
                  | Absent \<Rightarrow>
                      Inr (Some (assembleResult questions userResponses scores dominantResult
                                   confidence primaryArchetype None normalizedScores
                                   userTraitVector userTraitProfile visualizations))
                  | Own primaryScore \<Rightarrow>
                      Inr (Some (assembleResult questions userResponses scores dominantResult
                                   confidence primaryArchetype (Some primaryScore) normalizedScores
                                   userTraitVector userTraitProfile visualizations))))))))))"

text \<open>A one-question quiz whose only answer awards points to an archetype that is not in
  the catalogue, and the response choosing it.\<close>

definition doomerQuiz :: "question list" where
  "doomerQuiz =
     [\<lparr> q_id = ''q1'', q_text = ''Q'', q_weight = None,
        q_answers = [\<lparr> a_id = ''a'', a_archetypeScores = Some [(''doomer'', 3)] \<rparr>] \<rparr>]"

definition doomerResponses :: "response list" where
  "doomerResponses = [\<lparr> r_questionId = ''q1'', r_answerId = ''a'' \<rparr>]"

subsection \<open>validateQuizData and validateUserResponses\<close>

text \<open>
  The validators are handed data of any shape, so their inputs are untyped values: the
  JSON values and \<^verbatim>\<open>undefined\<close>, numbers being integers. \<open>getProp v p\<close> is the read
  \<^verbatim>\<open>v.p\<close> of a data property, which raises a TypeError on \<^verbatim>\<open>undefined\<close> and
  \<^verbatim>\<open>null\<close>; \<open>truthy\<close> is the coercion of \<^verbatim>\<open>!v\<close> and \<^verbatim>\<open>if (v)\<close>;
  \<open>toStringJS\<close> the coercion to a property key and inside a template literal;
  \<open>typeofObject v\<close> is \<^verbatim>\<open>typeof v === 'object'\<close>; \<open>strictEquals\<close> is \<^verbatim>\<open>===\<close>,
  two distinct arrays or objects never being equal; \<open>orElse\<close> is \<^verbatim>\<open>||\<close>.
  A call \<^verbatim>\<open>xs.forEach(f)\<close> or \<^verbatim>\<open>xs.find(f)\<close> on a value that is not an array
  raises a TypeError, since no other value of this model has such a method.
  \<open>checkQuestion\<close>, \<open>checkAnswer\<close>, \<open>addQuestion\<close> and \<open>checkResponse\<close> are the
  callbacks of the source, the list of messages being their state. The question map of
  \<open>validateUserResponses\<close> is a plain object: its own properties, and the question that
  an id \<^verbatim>\<open>__proto__\<close> has made its prototype, if any; \<open>readQuestion\<close> is the read
  \<^verbatim>\<open>questionMap[response.questionId]\<close>, which finds a value or \<open>BuiltIn\<close>, a
  function or object inherited from \<^verbatim>\<open>Object.prototype\<close>: that passes the test
  \<^verbatim>\<open>!question\<close>, has no \<^verbatim>\<open>answers\<close>, and the call of \<^verbatim>\<open>find\<close> raises.
\<close>

datatype jsval =
    JUndefined
  | JNull
  | JBool bool
  | JNum int
  | JStr string
  | JArr "jsval list"
  | JObj "(string \<times> jsval) list"

fun showNat :: "nat \<Rightarrow> string" where
  "showNat n =
     (if n < 10 then [''0123456789'' ! n]
      else showNat (n div 10) @ [''0123456789'' ! (n mod 10)])"

declare showNat.simps [simp del]

definition showInt :: "int \<Rightarrow> string" where
  "showInt i = (if i < 0 then ''-'' @ showNat (nat (- i)) else showNat (nat i))"

fun join :: "string list \<Rightarrow> string" where
  "join [] = []"
| "join [s] = s"
| "join (s # t # rest) = s @ '','' @ join (t # rest)"

fun toStringJS :: "jsval \<Rightarrow> string" where
  "toStringJS JUndefined = ''undefined''"
| "toStringJS JNull = ''null''"
| "toStringJS (JBool b) = (if b then ''true'' else ''false'')"
| "toStringJS (JNum i) = showInt i"
| "toStringJS (JStr s) = s"
| "toStringJS (JArr xs) =
     join (map (\<lambda>x. if x = JUndefined \<or> x = JNull then [] else toStringJS x) xs)"
| "toStringJS (JObj kvs) = ''[object Object]''"

fun getProp :: "jsval \<Rightarrow> string \<Rightarrow> error + jsval" where
  "getProp JUndefined p = Inl TypeError"
| "getProp JNull p = Inl TypeError"
| "getProp (JObj kvs) p = Inr (case map_of kvs p of Some v \<Rightarrow> v | None \<Rightarrow> JUndefined)"
| "getProp (JArr xs) p = Inr (if p = ''length'' then JNum (int (length xs)) else JUndefined)"
| "getProp (JStr s) p = Inr (if p = ''length'' then JNum (int (length s)) else JUndefined)"
| "getProp (JBool b) p = Inr JUndefined"
| "getProp (JNum i) p = Inr JUndefined"

fun truthy :: "jsval \<Rightarrow> bool" where
  "truthy JUndefined = False"
| "truthy JNull = False"
| "truthy (JBool b) = b"
| "truthy (JNum i) = (i \<noteq> 0)"
| "truthy (JStr s) = (s \<noteq> [])"
| "truthy (JArr xs) = True"
| "truthy (JObj kvs) = True"

fun isArray :: "jsval \<Rightarrow> bool" where
  "isArray (JArr xs) = True"
| "isArray _ = False"

fun typeofObject :: "jsval \<Rightarrow> bool" where
  "typeofObject JNull = True"
| "typeofObject (JArr xs) = True"
| "typeofObject (JObj kvs) = True"
| "typeofObject _ = False"

fun strictEquals :: "jsval \<Rightarrow> jsval \<Rightarrow> bool" where
  "strictEquals (JArr xs) b = False"
| "strictEquals (JObj kvs) b = False"
| "strictEquals a b = (a = b)"

definition orElse :: "jsval \<Rightarrow> jsval \<Rightarrow> jsval" where
  "orElse a b = (if truthy a then a else b)"

record validationResult =
  vr_valid :: bool
  vr_errors :: "string list"

definition checkAnswer :: "jsval \<Rightarrow> nat \<Rightarrow> string list \<Rightarrow> jsval \<times> nat \<Rightarrow> error + string list" where
  "checkAnswer qid index errors entry =
     (case entry of (a, aIndex) \<Rightarrow>
        (case getProp a ''id'' of
           Inl e \<Rightarrow> Inl e
         | Inr aid \<Rightarrow>
             (let errors1 =
                    (if \<not> truthy aid
                     then errors @ [''Answer at index '' @ showNat aIndex @ '' for question '' @
                            toStringJS (orElse qid (JNum (int index))) @ '' missing id'']
                     else errors)
              in case getProp a ''archetypeScores'' of
                   Inl e \<Rightarrow> Inl e
                 | Inr archetypeScores \<Rightarrow>
                     Inr (if \<not> truthy archetypeScores \<or> \<not> typeofObject archetypeScores
                          then errors1 @ [''Answer '' @ toStringJS (orElse aid (JNum (int aIndex))) @
                                 '' for question '' @ toStringJS (orElse qid (JNum (int index))) @
                                 '' missing archetypeScores'']
                          else errors1))))"

definition checkQuestion :: "string list \<Rightarrow> jsval \<times> nat \<Rightarrow> error + string list" where
  "checkQuestion errors entry =
     (case entry of (q, index) \<Rightarrow>
        (case getProp q ''id'' of
           Inl e \<Rightarrow> Inl e
         | Inr qid \<Rightarrow>
             (let errors1 =
                    (if \<not> truthy qid
                     then errors @ [''Question at index '' @ showNat index @ '' missing id'']
                     else errors)
              in case getProp q ''text'' of
                   Inl e \<Rightarrow> Inl e
                 | Inr text \<Rightarrow>
                     (let errors2 =
                            (if \<not> truthy text
                             then errors1 @ [''Question '' @ toStringJS (orElse qid (JNum (int index))) @
                                    '' missing text'']
                             else errors1)
                      in case getProp q ''answers'' of
                           Inl e \<Rightarrow> Inl e
                         | Inr answers \<Rightarrow>
                             (let errors3 =
                                    (if \<not> isArray answers \<or> getProp answers ''length'' = Inr (JNum 0)
                                     then errors2 @ [''Question '' @
                                            toStringJS (orElse qid (JNum (int index))) @
                                            '' must have at least one answer'']
                                     else errors2)
                              in if truthy answers
                                 then (case answers of
                                         JArr as \<Rightarrow>
                                           forEachE (checkAnswer qid index) errors3
                                             (zip as [0..<length as])
                                       | _ \<Rightarrow> Inl TypeError)
                                 else Inr errors3)))))"

definition validateQuizData :: "jsval \<Rightarrow> error + validationResult" where
  "validateQuizData questions =
     (case questions of
        JArr qs \<Rightarrow>
          (let errors0 = (if length qs = 0 then [''Quiz must have at least one question''] else [])
           in case forEachE checkQuestion errors0 (zip qs [0..<length qs]) of
                Inl e \<Rightarrow> Inl e
              | Inr errors \<Rightarrow> Inr \<lparr> vr_valid = (length errors = 0), vr_errors = errors \<rparr>)
      | _ \<Rightarrow> Inr \<lparr> vr_valid = False, vr_errors = [''Questions must be an array''] \<rparr>)"

type_synonym jsQuestionMap = "(string \<rightharpoonup> jsval) \<times> jsval option"

definition addQuestion :: "jsQuestionMap \<Rightarrow> jsval \<Rightarrow> error + jsQuestionMap" where
  "addQuestion questionMap q =
     (case questionMap of (own, proto) \<Rightarrow>
        (case getProp q ''id'' of
           Inl e \<Rightarrow> Inl e
         | Inr qid \<Rightarrow>
             if toStringJS qid = ''__proto__''
             then Inr (own, (case q of JObj kvs \<Rightarrow> Some q | _ \<Rightarrow> proto))
             else Inr (own(toStringJS qid \<mapsto> q), proto)))"

datatype jsLookup = Value jsval | BuiltIn

definition readQuestion :: "jsQuestionMap \<Rightarrow> string \<Rightarrow> jsLookup" where
  "readQuestion questionMap key =
     (case questionMap of (own, proto) \<Rightarrow>
        (case own key of
           Some q \<Rightarrow> Value q
         | None \<Rightarrow>
             (case proto of
                Some (JObj kvs) \<Rightarrow>
                  if key = ''__proto__'' then Value (JObj kvs)
                  else (case map_of kvs key of
                          Some v \<Rightarrow> Value v
                        | None \<Rightarrow> if key \<in> set OBJECT_PROTOTYPE then BuiltIn else Value JUndefined)
              | _ \<Rightarrow> if key \<in> set OBJECT_PROTOTYPE then BuiltIn else Value JUndefined)))"

definition checkResponse ::
  "jsQuestionMap \<Rightarrow> string list \<Rightarrow> jsval \<times> nat \<Rightarrow> error + string list" where
  "checkResponse questionMap errors entry =
     (case entry of (response, index) \<Rightarrow>
        (case getProp response ''questionId'' of
           Inl e \<Rightarrow> Inl e
         | Inr questionId \<Rightarrow>
             if \<not> truthy questionId
             then Inr (errors @ [''Response at index '' @ showNat index @ '' missing questionId''])
             else
               (case getProp response ''answerId'' of
                  Inl e \<Rightarrow> Inl e
                | Inr answerId \<Rightarrow>
                    if \<not> truthy answerId
                    then Inr (errors @ [''Response at index '' @ showNat index @ '' missing answerId''])
                    else
                      (case readQuestion questionMap (toStringJS questionId) of
                         BuiltIn \<Rightarrow> Inl TypeError
                       | Value question \<Rightarrow>
                          if \<not> truthy question
                          then Inr (errors @ [''Response references unknown question: '' @
                                      toStringJS questionId])
                          else
                            (case getProp question ''answers'' of
                               Inl e \<Rightarrow> Inl e
                             | Inr (JArr as) \<Rightarrow>
                                 (case findE (\<lambda>a. case getProp a ''id'' of
                                                     Inl e \<Rightarrow> Inl e
                                                   | Inr aid \<Rightarrow> Inr (strictEquals aid answerId)) as of
                                    Inl e \<Rightarrow> Inl e
                                  | Inr answer \<Rightarrow>
                                      Inr (if \<not> truthy (case answer of None \<Rightarrow> JUndefined | Some a \<Rightarrow> a)
                                           then errors @ [''Response references unknown answer: '' @
                                                  toStringJS answerId @ '' for question '' @
                                                  toStringJS questionId]
                                           else errors))
                             | Inr _ \<Rightarrow> Inl TypeError)))))"

definition validateUserResponses :: "jsval \<Rightarrow> jsval \<Rightarrow> error + validationResult" where
  "validateUserResponses questions userResponses =
     (case userResponses of
        JArr rs \<Rightarrow>
          (case questions of
             JArr qs \<Rightarrow>
               (case forEachE addQuestion (Map.empty, None) qs of
                  Inl e \<Rightarrow> Inl e
                | Inr questionMap \<Rightarrow>
                    (case forEachE (checkResponse questionMap) [] (zip rs [0..<length rs]) of
                       Inl e \<Rightarrow> Inl e
                     | Inr errors \<Rightarrow> Inr \<lparr> vr_valid = (length errors = 0), vr_errors = errors \<rparr>))
           | _ \<Rightarrow> Inl TypeError)
      | _ \<Rightarrow> Inr \<lparr> vr_valid = False, vr_errors = [''User responses must be an array''] \<rparr>)"

section \<open>Properties\<close>

subsection \<open>Sorting rearranges\<close>

lemma mset_insert_by: "mset (insert_by cmp x ys) = add_mset x (mset ys)"
  by (induction ys) auto

lemma mset_sort_by: "mset (sort_by cmp xs) = mset xs"
  by (induction xs) (auto simp: sort_by_def mset_insert_by)

lemma set_sort_by: "set (sort_by cmp xs) = set xs"
  by (metis mset_sort_by set_mset_mset)

lemma length_sort_by: "length (sort_by cmp xs) = length xs"
  by (metis mset_sort_by size_mset)

subsection \<open>Maximum and minimum\<close>

lemma fold_max_Max: "fold max xs (x::real) = Max (insert x (set xs))"
proof (induction xs arbitrary: x)
  case Nil
  show ?case by simp
next
  case (Cons y ys)
  have "fold max (y # ys) x = Max (insert (max x y) (set ys))"
    using Cons.IH [of "max y x"] by (simp add: max.commute)
  also have "\<dots> = Max (insert x (insert y (set ys)))"
    by (cases "set ys = {}") (auto simp: max.assoc)
  finally show ?case by simp
qed

lemma fold_min_Min: "fold min xs (x::real) = Min (insert x (set xs))"
proof (induction xs arbitrary: x)
  case Nil
  show ?case by simp
next
  case (Cons y ys)
  have "fold min (y # ys) x = Min (insert (min x y) (set ys))"
    using Cons.IH [of "min y x"] by (simp add: min.commute)
  also have "\<dots> = Min (insert x (insert y (set ys)))"
    by (cases "set ys = {}") (auto simp: min.assoc)
  finally show ?case by simp
qed

lemma image_constant: "A \<noteq> {} \<Longrightarrow> \<forall>e \<in> A. f e = c \<Longrightarrow> f ` A = {c}"
  by auto

lemma Math_max_Max: "Math_max (snd e) (map snd es) = Max (snd ` set (e # es))"
  by (simp add: Math_max_def fold_max_Max)

lemma Math_min_Min: "Math_min (snd e) (map snd es) = Min (snd ` set (e # es))"
  by (simp add: Math_min_def fold_min_Min)

subsection \<open>The dominance resolver\<close>

lemma determineDominantArchetypes_Inr:
  assumes "determineDominantArchetypes scores eps = Inr r"
  shows "scores \<noteq> [] \<and>
         dr_maxScore r = Max (snd ` set scores) \<and>
         dr_threshold r = Max (snd ` set scores) * (1 - eps) \<and>
         set (dr_dominant r) = fst ` {(k, s). (k, s) \<in> set scores \<and> dr_threshold r \<le> s}"
proof (cases scores)
  case Nil
  with assms show ?thesis by (simp add: determineDominantArchetypes_def)
next
  case (Cons e es)
  let ?threshold = "Max (snd ` set (e # es)) * (1 - eps)"
  from assms have fields:
    "dr_maxScore r = Max (snd ` set (e # es))"
    "dr_threshold r = ?threshold"
    "dr_dominant r =
       map fst (sort_by dominantCompare (filter (\<lambda>(_, score). ?threshold \<le> score) (e # es)))"
    unfolding Cons
    by (auto simp: determineDominantArchetypes_def Let_def Math_max_Max Math_min_Min
             simp del: filter.simps set_simps split: if_splits)
  have "set (dr_dominant r) =
          fst ` {(k, s). (k, s) \<in> set (e # es) \<and> ?threshold \<le> s}"
    unfolding fields(3) set_map set_sort_by by (rule arg_cong [where f = "image fst"]) auto
  with fields show ?thesis unfolding Cons by simp
qed

lemma noValidScores_iff:
  "(determineDominantArchetypes scores eps = Inl NoValidScores) =
     (scores \<noteq> [] \<and> Max (snd ` set scores) = 0 \<and>
      Max (snd ` set scores) - Min (snd ` set scores) < MINIMUM_VARIANCE)"
proof (cases scores)
  case Nil
  then show ?thesis by (simp add: determineDominantArchetypes_def)
next
  case (Cons e es)
  have "(determineDominantArchetypes scores eps = Inl NoValidScores) =
        (Math_max (snd e) (map snd es) - Math_min (snd e) (map snd es) < MINIMUM_VARIANCE \<and>
         Math_max (snd e) (map snd es) = 0)"
    by (simp add: Cons determineDominantArchetypes_def Let_def)
  also have "\<dots> = (Max (snd ` set scores) - Min (snd ` set scores) < MINIMUM_VARIANCE \<and>
         Max (snd ` set scores) = 0)"
    unfolding Math_max_Max Math_min_Min Cons ..
  finally show ?thesis using Cons by blast
qed

lemmas determineDominantArchetypes_eval =
  determineDominantArchetypes_def Math_max_def Math_min_def MINIMUM_VARIANCE_def TIE_TOLERANCE_def
  sort_by_def dominantCompare_def localeCompare_def setProperty_def Let_def

text \<open>
  Claim C1 is violated by the code. With the single score \<open>-1\<close> nothing is raised, the
  threshold \<open>-1 * (1 - 0.05) = -0.95\<close> lies above the maximum, and the dominant set comes
  back empty: the archetype that achieves the maximum is not a member of it.
\<close>

theorem dominant_set_empty_for_negative_maximum:
  "determineDominantArchetypes [(''a'', - 1)] TIE_TOLERANCE =
     Inr \<lparr> dr_dominant = [], dr_scores = [], dr_maxScore = - 1, dr_threshold = - 0.95,
           dr_hasTie = False, dr_variance = 0 \<rparr>"
  by (simp add: determineDominantArchetypes_eval)

text \<open>
  The threshold \<open>S_max * (1 - eps)\<close> is at most \<open>S_max\<close> exactly when \<open>0 \<le> eps * S_max\<close>:
  there, and only there, the archetypes achieving the maximum are in the dominant set.
  On the specification's example \<open>{a: 5, b: 5, c: 2}\<close> with tolerance 0.05 both \<open>a\<close> and
  \<open>b\<close> are.
\<close>

lemma dominant_contains_max_iff:
  assumes ret: "determineDominantArchetypes scores eps = Inr r"
      and entry: "(k, s) \<in> set scores"
      and top: "s = Max (snd ` set scores)"
  shows "k \<in> set (dr_dominant r) \<longleftrightarrow> 0 \<le> eps * s"
proof -
  from determineDominantArchetypes_Inr [OF ret]
  have thr: "dr_threshold r = s * (1 - eps)"
    and dom: "set (dr_dominant r) = fst ` {(k, s). (k, s) \<in> set scores \<and> dr_threshold r \<le> s}"
    using top by simp_all
  have le: "s * (1 - eps) \<le> s \<longleftrightarrow> 0 \<le> eps * s"
    by (simp add: algebra_simps)
  show ?thesis
  proof
    assume "0 \<le> eps * s"
    with le thr entry have "(k, s) \<in> {(k, s). (k, s) \<in> set scores \<and> dr_threshold r \<le> s}"
      by simp
    then show "k \<in> set (dr_dominant r)" unfolding dom by force
  next
    assume "k \<in> set (dr_dominant r)"
    then obtain s' where s': "(k, s') \<in> set scores" "s * (1 - eps) \<le> s'"
      unfolding dom thr by auto
    have "s' \<le> s" unfolding top using s'(1) by (intro Max_ge) force+
    with s'(2) le show "0 \<le> eps * s" by simp
  qed
qed

lemma dominant_tie_example:
  "determineDominantArchetypes [(''a'', 5), (''b'', 5), (''c'', 2)] 0.05 =
     Inr \<lparr> dr_dominant = [''a'', ''b''], dr_scores = [(''a'', 5), (''b'', 5)],
           dr_maxScore = 5, dr_threshold = 4.75, dr_hasTie = True, dr_variance = 3 \<rparr>"
  by (simp add: determineDominantArchetypes_eval)

text \<open>
  Claim C2, as the code has it. \<open>determineDominantArchetypes\<close> raises NoValidScores
  exactly when the score map is not empty, its maximum is exactly 0 and the spread
  \<open>max - min\<close> is below \<open>MINIMUM_VARIANCE = 0.1\<close>. Hence, on a non-empty map without
  negative scores it raises exactly when every score is zero, and a map whose scores are
  all equal and strictly positive never raises.
\<close>

theorem noValidScores_exactly:
  "((determineDominantArchetypes scores eps = Inl NoValidScores) =
      (scores \<noteq> [] \<and> Max (snd ` set scores) = 0 \<and>
       Max (snd ` set scores) - Min (snd ` set scores) < MINIMUM_VARIANCE)) \<and>
   (scores \<noteq> [] \<and> (\<forall>e \<in> set scores. 0 \<le> snd e) \<longrightarrow>
      (determineDominantArchetypes scores eps = Inl NoValidScores) =
      (\<forall>e \<in> set scores. snd e = 0)) \<and>
   ((\<exists>c > 0. \<forall>e \<in> set scores. snd e = c) \<longrightarrow>
      determineDominantArchetypes scores eps \<noteq> Inl NoValidScores)"
proof (intro conjI impI)
  show "(determineDominantArchetypes scores eps = Inl NoValidScores) =
      (scores \<noteq> [] \<and> Max (snd ` set scores) = 0 \<and>
       Max (snd ` set scores) - Min (snd ` set scores) < MINIMUM_VARIANCE)"
    by (rule noValidScores_iff)
next
  assume a: "scores \<noteq> [] \<and> (\<forall>e \<in> set scores. 0 \<le> snd e)"
  let ?V = "snd ` set scores"
  have fin: "finite ?V" "?V \<noteq> {}" using a by simp_all
  have nonneg: "\<forall>v \<in> ?V. 0 \<le> v" using a by auto
  show "(determineDominantArchetypes scores eps = Inl NoValidScores) =
      (\<forall>e \<in> set scores. snd e = 0)"
  proof
    assume "determineDominantArchetypes scores eps = Inl NoValidScores"
    then have "Max ?V = 0" by (simp add: noValidScores_iff)
    then have "\<forall>v \<in> ?V. v \<le> 0" using fin by (metis Max_ge)
    with nonneg have "\<forall>v \<in> ?V. v = 0" by force
    then show "\<forall>e \<in> set scores. snd e = 0" by simp
  next
    assume "\<forall>e \<in> set scores. snd e = 0"
    then have "?V = {0}" using a by (intro image_constant) simp_all
    then show "determineDominantArchetypes scores eps = Inl NoValidScores"
      using a by (simp add: noValidScores_iff MINIMUM_VARIANCE_def)
  qed
next
  assume "\<exists>c > 0. \<forall>e \<in> set scores. snd e = c"
  then obtain c where c: "0 < c" "\<forall>e \<in> set scores. snd e = c" by blast
  show "determineDominantArchetypes scores eps \<noteq> Inl NoValidScores"
  proof (cases "scores = []")
    case True
    then show ?thesis by (simp add: noValidScores_iff)
  next
    case False
    with c have "snd ` set scores = {c}" by (intro image_constant) simp_all
    with c show ?thesis by (simp add: noValidScores_iff)
  qed
qed

text \<open>The specification's zero-score example \<open>{a: 0, b: 0}\<close> raises; the uniform positive
  tie \<open>{a: 5, b: 5, c: 5}\<close> does not.\<close>

theorem noValidScores_exactly_witness:
  "determineDominantArchetypes [(''a'', 0), (''b'', 0)] 0.05 = Inl NoValidScores \<and>
   determineDominantArchetypes [(''a'', 5), (''b'', 5), (''c'', 5)] 0.05 \<noteq> Inl NoValidScores"
proof -
  let ?Z = "[(''a'', 0), (''b'', 0::real)]"
  let ?U = "[(''a'', 5), (''b'', 5), (''c'', 5::real)]"
  have z: "?Z \<noteq> [] \<and> (\<forall>e \<in> set ?Z. 0 \<le> snd e)" by simp
  have zero: "\<forall>e \<in> set ?Z. snd e = 0" by simp
  have u: "\<exists>c > 0. \<forall>e \<in> set ?U. snd e = c" by (rule exI [of _ 5]) simp
  note characterised = noValidScores_exactly
  from characterised [of ?Z "0.05", THEN conjunct2, THEN conjunct1, rule_format, OF z] zero
  have "determineDominantArchetypes ?Z 0.05 = Inl NoValidScores" by blast
  moreover from characterised [of ?U "0.05", THEN conjunct2, THEN conjunct2, rule_format, OF u]
  have "determineDominantArchetypes ?U 0.05 \<noteq> Inl NoValidScores" .
  ultimately show ?thesis by blast
qed

text \<open>
  Claim C2 as stated fails: the scores \<open>{a: 0, b: -0.05}\<close> are not all zero, yet the
  maximum is 0 and the spread 0.05 is below 0.1, so NoValidScores is raised.
\<close>

theorem noValidScores_counterexample:
  "determineDominantArchetypes [(''a'', 0), (''b'', - 0.05)] TIE_TOLERANCE = Inl NoValidScores \<and>
   (\<exists>e \<in> set [(''a'', 0), (''b'', - 0.05 :: real)]. snd e \<noteq> 0)"
  by (simp add: determineDominantArchetypes_eval)

subsection \<open>Conservation of points\<close>

lemma initialScores_list:
  "initialScores =
     [(''ostrich'', Number 0), (''blissed-out-yogi'', Number 0), (''illusionist'', Number 0),
      (''normalizer'', Number 0), (''prepper'', Number 0), (''prophet-of-doom'', Number 0),
      (''alt-right-collapse-bro'', Number 0), (''evangelical-nationalist'', Number 0),
      (''apocaloptimist'', Number 0), (''trickster'', Number 0), (''woke-lefty-socialist'', Number 0),
      (''salvager'', Number 0), (''sacred-keeper'', Number 0), (''everyday-hustler'', Number 0),
      (''already-collapsed'', Number 0), (''extracted'', Number 0), (''child-witness'', Number 0),
      (''opportunist-elite'', Number 0), (''conspiracy-theorist'', Number 0)]"
  by (simp add: initialScores_def setProperty_def ARCHETYPE_TRAIT_PROFILES_def)

text \<open>
  Claim C3 is violated by the code. \<^verbatim>\<open>scores[archetypeId] !== undefined\<close> and
  \<^verbatim>\<open>questionMap[response.questionId]\<close> also find the names every object inherits.
  An answer that awards 2 points to the archetype id \<^verbatim>\<open>constructor\<close> is processed,
  and the returned object then holds, besides the nineteen zeros, the string made of the
  inherited function and the digit 2: its values are not numbers whose sum is the
  2 points of the processed response. A response whose question id is
  \<^verbatim>\<open>constructor\<close> names no question of the quiz, and instead of being ignored it
  raises a TypeError.
\<close>

theorem inherited_names_break_conservation:
  "calculateArchetypeScores constructorQuiz [\<lparr> r_questionId = ''q1'', r_answerId = ''a'' \<rparr>] =
     Inr (initialScores @ [(''constructor'', Text (Concatenated (FunctionSource ''constructor'') 2))]) \<and>
   numericScores (initialScores @ [(''constructor'', Text (Concatenated (FunctionSource ''constructor'') 2))]) = None \<and>
   processedPoints constructorQuiz \<lparr> r_questionId = ''q1'', r_answerId = ''a'' \<rparr> = 2 \<and>
   calculateArchetypeScores constructorQuiz [\<lparr> r_questionId = ''constructor'', r_answerId = ''a'' \<rparr>] =
     Inl TypeError"
  by (simp add: calculateArchetypeScores_def scoreResponse_def buildQuestionMap_def lookupQuestion_def
      addPoints_def getProperty_def setProperty_def OBJECT_PROTOTYPE_def constructorQuiz_def
      processedPoints_def initialScores_list)

lemma numericScores_scoreObject: "numericScores (scoreObject scores) = Some scores"
  by (induction scores) (auto simp: scoreObject_def)

lemma map_of_scoreObject: "map_of (scoreObject scores) k = map_option Number (map_of scores k)"
  by (induction scores) (auto simp: scoreObject_def)

lemma update_scoreObject:
  "AList.update k (Number v) (scoreObject scores) = scoreObject (AList.update k v scores)"
  by (induction scores) (auto simp: scoreObject_def)

lemma proto_is_inherited: "k \<notin> set OBJECT_PROTOTYPE \<Longrightarrow> k \<noteq> ''__proto__''"
  by (auto simp: OBJECT_PROTOTYPE_def)

lemma addPoints_scoreObject:
  assumes "k \<notin> set OBJECT_PROTOTYPE"
  shows "addPoints w (scoreObject scores) (k, p) =
           scoreObject (AList.update k ((case map_of scores k of Some v \<Rightarrow> v | None \<Rightarrow> 0) + w * p) scores)"
  using assms proto_is_inherited [OF assms]
  by (simp add: addPoints_def getProperty_def setProperty_def map_of_scoreObject update_scoreObject
      split: option.splits)

lemma scoreTotal_update:
  "scoreTotal (AList.update k v xs) =
     (case map_of xs k of None \<Rightarrow> scoreTotal xs + v | Some s \<Rightarrow> scoreTotal xs - s + v)"
  by (induction xs) (auto simp: scoreTotal_def split: option.splits)

lemma foldl_addPoints_scoreObject:
  assumes "\<forall>k \<in> fst ` set pts. k \<notin> set OBJECT_PROTOTYPE"
      and "distinct (map fst scores)"
  shows "\<exists>scores'. foldl (addPoints w) (scoreObject scores) pts = scoreObject scores' \<and>
           distinct (map fst scores') \<and>
           scoreTotal scores' = scoreTotal scores + w * sum_list (map snd pts)"
  using assms
proof (induction pts arbitrary: scores)
  case Nil
  then show ?case by auto
next
  case (Cons e pts)
  obtain k p where e: "e = (k, p)" by (cases e)
  let ?next = "AList.update k ((case map_of scores k of Some v \<Rightarrow> v | None \<Rightarrow> 0) + w * p) scores"
  have k: "k \<notin> set OBJECT_PROTOTYPE" using Cons.prems(1) e by simp
  have step: "addPoints w (scoreObject scores) e = scoreObject ?next"
    unfolding e by (rule addPoints_scoreObject [OF k])
  have d: "distinct (map fst ?next)" using Cons.prems(2) by (simp add: distinct_update)
  have t: "scoreTotal ?next = scoreTotal scores + w * p"
    by (simp add: scoreTotal_update split: option.splits)
  from Cons.IH [OF _ d] Cons.prems(1)
  obtain scores' where "foldl (addPoints w) (scoreObject ?next) pts = scoreObject scores'"
    "distinct (map fst scores')"
    "scoreTotal scores' = scoreTotal ?next + w * sum_list (map snd pts)"
    by auto
  then show ?case
    unfolding foldl_Cons step using t e by (auto simp: algebra_simps)
qed

lemma find_append: "find P (xs @ ys) = (case find P xs of None \<Rightarrow> find P ys | Some x \<Rightarrow> Some x)"
  by (induction xs) auto

lemma buildQuestionMap_fold:
  assumes "\<forall>q \<in> set questions. q_id q \<noteq> ''__proto__''"
  shows "fold (\<lambda>q (own, proto).
             if q_id q = ''__proto__'' then (own, Some q) else (own(q_id q \<mapsto> q), proto))
           questions (m, p) =
         (\<lambda>k. case find (\<lambda>q. q_id q = k) (rev questions) of None \<Rightarrow> m k | Some q \<Rightarrow> Some q, p)"
  using assms
proof (induction questions arbitrary: m)
  case Nil
  then show ?case by simp
next
  case (Cons q qs)
  then show ?case
    by (auto simp: find_append fun_eq_iff split: option.splits)
qed

lemma lookupQuestion_ordinary:
  assumes "\<forall>q \<in> set questions. q_id q \<noteq> ''__proto__''" and "key \<notin> set OBJECT_PROTOTYPE"
  shows "lookupQuestion (buildQuestionMap questions) key =
           (case find (\<lambda>q. q_id q = key) (rev questions) of
              None \<Rightarrow> NotFound | Some q \<Rightarrow> Question q)"
  using assms(2)
  by (simp add: buildQuestionMap_def buildQuestionMap_fold [OF assms(1)] lookupQuestion_def
      split: option.splits)


lemma find_in_set: "find P xs = Some x \<Longrightarrow> x \<in> set xs"
  by (induction xs) (auto split: if_splits)

lemma scoreResponse_scoreObject:
  assumes q: "\<forall>q \<in> set questions. q_id q \<noteq> ''__proto__''"
      and r: "r_questionId r \<notin> set OBJECT_PROTOTYPE"
      and a: "\<forall>q \<in> set questions. \<forall>a \<in> set (q_answers q). \<forall>pts.
                a_archetypeScores a = Some pts \<longrightarrow> (\<forall>k \<in> fst ` set pts. k \<notin> set OBJECT_PROTOTYPE)"
      and d: "distinct (map fst scores)"
  shows "\<exists>scores'. scoreResponse (buildQuestionMap questions) (scoreObject scores) r =
                      Inr (scoreObject scores') \<and>
           distinct (map fst scores') \<and>
           scoreTotal scores' = scoreTotal scores + processedPoints questions r"
proof (cases "find (\<lambda>q. q_id q = r_questionId r) (rev questions)")
  case None
  then show ?thesis using d
    by (auto simp: scoreResponse_def processedPoints_def lookupQuestion_ordinary [OF q r])
next
  case (Some question)
  then have qin: "question \<in> set questions" using find_in_set by fastforce
  show ?thesis
  proof (cases "find (\<lambda>a. a_id a = r_answerId r) (q_answers question)")
    case None
    then show ?thesis using d Some
      by (auto simp: scoreResponse_def processedPoints_def lookupQuestion_ordinary [OF q r])
  next
    case answer: (Some selectedAnswer)
    then have ain: "selectedAnswer \<in> set (q_answers question)" by (rule find_in_set)
    show ?thesis
    proof (cases "a_archetypeScores selectedAnswer")
      case None
      then show ?thesis using d Some answer
        by (auto simp: scoreResponse_def processedPoints_def lookupQuestion_ordinary [OF q r])
    next
      case pts: (Some archetypeScores)
      have ordinary: "\<forall>k \<in> fst ` set archetypeScores. k \<notin> set OBJECT_PROTOTYPE"
        using a qin ain pts by blast
      define weight where "weight = (case q_weight question of Some w \<Rightarrow> w | None \<Rightarrow> 1)"
      from foldl_addPoints_scoreObject [OF ordinary d, of weight]
      obtain scores' where s:
        "foldl (addPoints weight) (scoreObject scores) archetypeScores = scoreObject scores'"
        "distinct (map fst scores')"
        "scoreTotal scores' = scoreTotal scores + weight * sum_list (map snd archetypeScores)"
        by blast
      have "scoreResponse (buildQuestionMap questions) (scoreObject scores) r = Inr (scoreObject scores')"
        using Some answer pts s(1)
        by (cases "q_weight question")
           (simp_all add: scoreResponse_def lookupQuestion_ordinary [OF q r] weight_def)
      moreover have "processedPoints questions r = weight * sum_list (map snd archetypeScores)"
        using Some answer pts by (simp add: processedPoints_def weight_def)
      ultimately show ?thesis using s by auto
    qed
  qed
qed

lemma forEachE_scoreResponse:
  assumes q: "\<forall>q \<in> set questions. q_id q \<noteq> ''__proto__''"
      and a: "\<forall>q \<in> set questions. \<forall>a \<in> set (q_answers q). \<forall>pts.
                a_archetypeScores a = Some pts \<longrightarrow> (\<forall>k \<in> fst ` set pts. k \<notin> set OBJECT_PROTOTYPE)"
  shows "\<forall>r \<in> set rs. r_questionId r \<notin> set OBJECT_PROTOTYPE \<Longrightarrow> distinct (map fst scores) \<Longrightarrow>
         \<exists>scores'. forEachE (scoreResponse (buildQuestionMap questions)) (scoreObject scores) rs =
                      Inr (scoreObject scores') \<and>
           distinct (map fst scores') \<and>
           scoreTotal scores' = scoreTotal scores + sum_list (map (processedPoints questions) rs)"
proof (induction rs arbitrary: scores)
  case Nil
  then show ?case by auto
next
  case (Cons r rs)
  have r: "r_questionId r \<notin> set OBJECT_PROTOTYPE" using Cons.prems(1) by simp
  from scoreResponse_scoreObject [OF q r a Cons.prems(2)]
  obtain mid where m:
    "scoreResponse (buildQuestionMap questions) (scoreObject scores) r = Inr (scoreObject mid)"
    "distinct (map fst mid)"
    "scoreTotal mid = scoreTotal scores + processedPoints questions r"
    by blast
  from Cons.IH [OF _ m(2)] Cons.prems(1)
  obtain scores' where
    "forEachE (scoreResponse (buildQuestionMap questions)) (scoreObject mid) rs = Inr (scoreObject scores')"
    "distinct (map fst scores')"
    "scoreTotal scores' = scoreTotal mid + sum_list (map (processedPoints questions) rs)"
    by auto
  then show ?case using m by auto
qed

lemma initialScores_eq:
  "initialScores = scoreObject (map (\<lambda>(k, _). (k, 0)) ARCHETYPE_TRAIT_PROFILES)"
  by (simp add: initialScores_def scoreObject_def setProperty_def ARCHETYPE_TRAIT_PROFILES_def)

text \<open>
  Where no id is a name that every object inherits, the claim holds: the result is a
  score object of numbers, with one entry for each archetype, and the scores sum to the
  points of the processed responses.
\<close>

lemma conservation_for_ordinary_ids:
  assumes "\<forall>q \<in> set questions. q_id q \<noteq> ''__proto__''"
      and "\<forall>r \<in> set userResponses. r_questionId r \<notin> set OBJECT_PROTOTYPE"
      and "\<forall>q \<in> set questions. \<forall>a \<in> set (q_answers q). \<forall>pts.
             a_archetypeScores a = Some pts \<longrightarrow> (\<forall>k \<in> fst ` set pts. k \<notin> set OBJECT_PROTOTYPE)"
  shows "\<exists>scores. calculateArchetypeScores questions userResponses = Inr (scoreObject scores) \<and>
           distinct (map fst scores) \<and>
           sum_list (map snd scores) = sum_list (map (processedPoints questions) userResponses)"
proof -
  let ?zero = "map (\<lambda>(k, _). (k, 0::real)) ARCHETYPE_TRAIT_PROFILES"
  have d: "distinct (map fst ?zero)" by (simp add: ARCHETYPE_TRAIT_PROFILES_def)
  have z: "scoreTotal ?zero = 0" by (simp add: scoreTotal_def ARCHETYPE_TRAIT_PROFILES_def)
  from forEachE_scoreResponse [OF assms(1) assms(3) assms(2) d]
  show ?thesis
    unfolding calculateArchetypeScores_def initialScores_eq z by (simp add: scoreTotal_def)
qed

lemma conservation_mock:
  "\<exists>scores. calculateArchetypeScores mockQuestions mockResponses = Inr (scoreObject scores) \<and>
     sum_list (map snd scores) = 9"
  using conservation_for_ordinary_ids [of mockQuestions mockResponses]
  by (auto simp: processedPoints_def mockQuestions_def mockResponses_def OBJECT_PROTOTYPE_def)

subsection \<open>Confidence\<close>

lemma set_insert_by: "set (insert_by cmp x ys) = insert x (set ys)"
  by (induction ys) auto

lemma sorted_insert_by_desc:
  "sorted_wrt (\<lambda>a b. snd b \<le> (snd a :: real)) ys \<Longrightarrow>
   sorted_wrt (\<lambda>a b. snd b \<le> snd a) (insert_by (\<lambda>a b. snd b - snd a) x ys)"
  by (induction ys) (auto simp: set_insert_by)

lemma sorted_sort_by_desc:
  "sorted_wrt (\<lambda>a b. snd b \<le> (snd a :: real)) (sort_by (\<lambda>a b. snd b - snd a) xs)"
  by (induction xs) (auto simp: sort_by_def sorted_insert_by_desc)

lemma Max_sorted_desc:
  "sorted_wrt (\<lambda>a b. b \<le> (a :: real)) (x # xs) \<Longrightarrow> Max (set (x # xs)) = x"
  by (auto intro!: Max_eqI)

lemma top_two:
  assumes srt: "sorted_wrt (\<lambda>a b. snd b \<le> (snd a :: real)) ((k1, s1) # (k2, s2) # rest)"
      and perm: "mset ((k1, s1) # (k2, s2) # rest) = mset (es :: (string \<times> real) list)"
  shows "Max (set (map snd es)) = s1 \<and> Max (set (remove1 s1 (map snd es))) = s2"
proof -
  let ?vs = "s1 # s2 # map snd rest"
  have pv: "mset ?vs = mset (map snd es)"
    using perm by (metis list.simps(9) mset_map snd_conv)
  have sv: "sorted_wrt (\<lambda>a b. b \<le> a) ?vs"
    using srt by (auto simp: sorted_wrt_map)
  have "set (map snd es) = set ?vs" using pv by (metis set_mset_mset)
  then have first: "Max (set (map snd es)) = s1"
    using Max_sorted_desc [OF sv] by simp
  have "mset (remove1 s1 (map snd es)) = mset (s2 # map snd rest)"
    using pv by (metis add_mset_remove_trivial mset.simps(2) mset_remove1)
  then have "set (remove1 s1 (map snd es)) = set (s2 # map snd rest)"
    by (metis set_mset_mset)
  moreover have "sorted_wrt (\<lambda>a b. b \<le> a) (s2 # map snd rest)" using sv by simp
  ultimately have "Max (set (remove1 s1 (map snd es))) = s2"
    using Max_sorted_desc by metis
  with first show ?thesis by simp
qed

lemma sortedEntries_facts:
  "sorted_wrt (\<lambda>a b. snd b \<le> (snd a :: real))
     (sort_by (\<lambda>a b. snd b - snd a) (filter (\<lambda>(_, score). score > 0) scores)) \<and>
   mset (sort_by (\<lambda>a b. snd b - snd a) (filter (\<lambda>(_, score). score > 0) scores)) =
     mset (filter (\<lambda>(_, score). score > 0) (scores :: scoreMap)) \<and>
   length (sort_by (\<lambda>a b. snd b - snd a) (filter (\<lambda>(_, score). score > 0) scores)) =
     length (positiveScores scores)"
  by (simp add: sorted_sort_by_desc mset_sort_by length_sort_by positiveScores_def)

text \<open>
  Claim C4. With no strictly positive score \<open>calculateConfidence\<close> returns confidence 0,
  level NONE and neither place; with exactly one, confidence 1 and level PERFECT with no
  second place; with two or more, the confidence is \<open>(first - second) / first\<close> for the
  largest positive score and the largest of the remaining ones, it lies in \<open>[0, 1]\<close>, and
  the level is STRONG from 0.5, MODERATE from 0.2 and WEAK below.
\<close>

theorem calculateConfidence_cases:
  "(positiveScores scores = [] \<longrightarrow>
      calculateConfidence scores =
        \<lparr> cf_score = 0, cf_level = ''NONE'', cf_firstPlace = None, cf_secondPlace = None \<rparr>) \<and>
   (length (positiveScores scores) = 1 \<longrightarrow>
      cf_score (calculateConfidence scores) = 1 \<and>
      cf_level (calculateConfidence scores) = ''PERFECT'' \<and>
      cf_secondPlace (calculateConfidence scores) = None) \<and>
   (2 \<le> length (positiveScores scores) \<longrightarrow>
      (let first = Max (set (positiveScores scores));
           second = Max (set (remove1 first (positiveScores scores)));
           confidence = (first - second) / first
       in cf_score (calculateConfidence scores) = confidence \<and>
          0 \<le> confidence \<and> confidence \<le> 1 \<and>
          cf_level (calculateConfidence scores) =
            (if confidence \<ge> 0.5 then ''STRONG''
             else if confidence \<ge> 0.2 then ''MODERATE'' else ''WEAK'')))"
proof -
  let ?P = "filter (\<lambda>(_, score). score > 0) scores"
  let ?S = "sort_by (\<lambda>a b. snd b - snd a) ?P"
  note facts = sortedEntries_facts [of scores]
  have len: "length ?S = length (positiveScores scores)" using facts by blast
  have none: "positiveScores scores = [] \<longrightarrow>
      calculateConfidence scores =
        \<lparr> cf_score = 0, cf_level = ''NONE'', cf_firstPlace = None, cf_secondPlace = None \<rparr>"
  proof
    assume "positiveScores scores = []"
    then have "?S = []" using len by simp
    then show "calculateConfidence scores =
        \<lparr> cf_score = 0, cf_level = ''NONE'', cf_firstPlace = None, cf_secondPlace = None \<rparr>"
      by (simp add: calculateConfidence_def)
  qed
  have one: "length (positiveScores scores) = 1 \<longrightarrow>
      cf_score (calculateConfidence scores) = 1 \<and>
      cf_level (calculateConfidence scores) = ''PERFECT'' \<and>
      cf_secondPlace (calculateConfidence scores) = None"
  proof
    assume "length (positiveScores scores) = 1"
    then have "length ?S = 1" using len by simp
    then obtain e where "?S = [e]" by (cases ?S) auto
    then show "cf_score (calculateConfidence scores) = 1 \<and>
      cf_level (calculateConfidence scores) = ''PERFECT'' \<and>
      cf_secondPlace (calculateConfidence scores) = None"
      by (simp add: calculateConfidence_def split: prod.splits)
  qed
  have two: "2 \<le> length (positiveScores scores) \<longrightarrow>
      (let first = Max (set (positiveScores scores));
           second = Max (set (remove1 first (positiveScores scores)));
           confidence = (first - second) / first
       in cf_score (calculateConfidence scores) = confidence \<and>
          0 \<le> confidence \<and> confidence \<le> 1 \<and>
          cf_level (calculateConfidence scores) =
            (if confidence \<ge> 0.5 then ''STRONG''
             else if confidence \<ge> 0.2 then ''MODERATE'' else ''WEAK''))"
  proof
    assume "2 \<le> length (positiveScores scores)"
    then have "2 \<le> length ?S" using len by simp
    then obtain k1 s1 k2 s2 rest where S: "?S = (k1, s1) # (k2, s2) # rest"
      by (cases ?S; cases "tl ?S") auto
    have srt: "sorted_wrt (\<lambda>a b. snd b \<le> snd a) ((k1, s1) # (k2, s2) # rest)"
      using facts S by simp
    have perm: "mset ((k1, s1) # (k2, s2) # rest) = mset ?P"
      using facts S by simp
    have tt: "Max (set (positiveScores scores)) = s1 \<and>
              Max (set (remove1 s1 (positiveScores scores))) = s2"
      using top_two [OF srt perm] by (simp add: positiveScores_def)
    have "(k1, s1) \<in> set ?P" "(k2, s2) \<in> set ?P"
      using perm by (metis list.set_intros(1) set_mset_mset, metis list.set_intros(1,2) set_mset_mset)
    then have pos: "0 < s1" "0 < s2" by auto
    have le: "s2 \<le> s1" using srt by simp
    have c: "cf_score (calculateConfidence scores) = (s1 - s2) / s1"
      "cf_level (calculateConfidence scores) =
         (if (s1 - s2) / s1 \<ge> 0.5 then ''STRONG''
          else if (s1 - s2) / s1 \<ge> 0.2 then ''MODERATE'' else ''WEAK'')"
      using S by (simp_all add: calculateConfidence_def Let_def CONFIDENCE_THRESHOLDS_STRONG_def
          CONFIDENCE_THRESHOLDS_MODERATE_def)
    have b: "0 \<le> (s1 - s2) / s1" "(s1 - s2) / s1 \<le> 1"
      using pos le by (simp_all add: field_simps)
    show "(let first = Max (set (positiveScores scores));
           second = Max (set (remove1 first (positiveScores scores)));
           confidence = (first - second) / first
       in cf_score (calculateConfidence scores) = confidence \<and>
          0 \<le> confidence \<and> confidence \<le> 1 \<and>
          cf_level (calculateConfidence scores) =
            (if confidence \<ge> 0.5 then ''STRONG''
             else if confidence \<ge> 0.2 then ''MODERATE'' else ''WEAK''))"
      unfolding Let_def using tt c b by simp
  qed
  from none one two show ?thesis by blast
qed

text \<open>One input for each case, the last two from the repository's tests.\<close>

theorem calculateConfidence_cases_witness:
  "calculateConfidence [(''a'', 0), (''b'', - 1)] =
     \<lparr> cf_score = 0, cf_level = ''NONE'', cf_firstPlace = None, cf_secondPlace = None \<rparr> \<and>
   cf_score (calculateConfidence [(''prepper'', 10), (''ostrich'', 0), (''apocaloptimist'', 0)]) = 1 \<and>
   cf_level (calculateConfidence [(''prepper'', 10), (''ostrich'', 0), (''apocaloptimist'', 0)]) =
     ''PERFECT'' \<and>
   cf_score (calculateConfidence [(''ostrich'', 2), (''prepper'', 10), (''apocaloptimist'', 4)]) =
     3 / 5 \<and>
   cf_level (calculateConfidence [(''ostrich'', 2), (''prepper'', 10), (''apocaloptimist'', 4)]) =
     ''STRONG''"
proof -
  let ?Z = "[(''a'', 0), (''b'', - 1 :: real)]"
  let ?O = "[(''prepper'', 10), (''ostrich'', 0), (''apocaloptimist'', 0 :: real)]"
  let ?T = "[(''ostrich'', 2), (''prepper'', 10), (''apocaloptimist'', 4 :: real)]"
  have z: "positiveScores ?Z = []" by (simp add: positiveScores_def)
  have o: "length (positiveScores ?O) = 1" by (simp add: positiveScores_def)
  have t: "2 \<le> length (positiveScores ?T)" by (simp add: positiveScores_def)
  have pt: "positiveScores ?T = [2, 10, 4]" by (simp add: positiveScores_def)
  from calculateConfidence_cases [of ?Z, THEN conjunct1, rule_format, OF z]
  have "calculateConfidence ?Z =
     \<lparr> cf_score = 0, cf_level = ''NONE'', cf_firstPlace = None, cf_secondPlace = None \<rparr>" .
  moreover from calculateConfidence_cases [of ?O, THEN conjunct2, THEN conjunct1, rule_format, OF o]
  have "cf_score (calculateConfidence ?O) = 1 \<and> cf_level (calculateConfidence ?O) = ''PERFECT''"
    by blast
  moreover from calculateConfidence_cases [of ?T, THEN conjunct2, THEN conjunct2, rule_format, OF t]
  have "cf_score (calculateConfidence ?T) = 3 / 5 \<and> cf_level (calculateConfidence ?T) = ''STRONG''"
    unfolding pt Let_def by simp
  ultimately show ?thesis by blast
qed

subsection \<open>Cosine similarity\<close>

text \<open>
  A real \<open>x\<close> with \<open>2 ^ k \<le> |x| < 2 ^ (k + 1)\<close> in the normal range rounds to
  \<open>n * 2 ^ (k - 52)\<close> when \<open>x / 2 ^ (k - 52)\<close> is less than one half away from the integer
  \<open>n\<close>; a real below \<open>2 ^ (- 1075)\<close> in absolute value rounds to 0.
\<close>

lemma roundToEven_near: "\<bar>y - of_int n\<bar> < 1 / 2 \<Longrightarrow> roundToEven y = n"
proof -
  assume a: "\<bar>y - of_int n\<bar> < 1 / 2"
  show ?thesis
  proof (cases "of_int n \<le> y")
    case True
    with a have "\<lfloor>y\<rfloor> = n" by (intro floor_unique) auto
    with a True show ?thesis by (simp add: roundToEven_def)
  next
    case False
    with a have f: "\<lfloor>y\<rfloor> = n - 1" by (intro floor_unique) auto
    have "1 / 2 < y - of_int (n - 1)" using a False by auto
    with f show ?thesis by (simp add: roundToEven_def)
  qed
qed

lemma binary64_eqI:
  fixes k n :: int
  assumes lo: "2 powr of_int k \<le> \<bar>x\<bar>" and hi: "\<bar>x\<bar> < 2 powr of_int (k + 1)"
      and range: "- 1022 \<le> k" "k \<le> 1022"
      and near: "\<bar>x / 2 powr of_int (k - 52) - of_int n\<bar> < 1 / 2"
  shows "binary64 x = Num (of_int n * 2 powr of_int (k - 52))"
proof -
  have pos: "0 < \<bar>x\<bar>" using lo by (smt (verit) powr_gt_zero)
  then have x0: "x \<noteq> 0" by auto
  have fl: "\<lfloor>log 2 \<bar>x\<bar>\<rfloor> = k" using lo hi pos by (simp add: floor_log_eq_powr_iff)
  have e: "max (\<lfloor>log 2 \<bar>x\<bar>\<rfloor> - 52) (- 1074) = k - 52" using fl range by simp
  have r: "roundToEven (x / 2 powr of_int (k - 52)) = n" using near by (rule roundToEven_near)
  have u: "0 < (2::real) powr of_int (k - 52)" by simp
  have "\<bar>of_int n :: real\<bar> < \<bar>x / 2 powr of_int (k - 52)\<bar> + 1 / 2" using near by linarith
  also have "\<bar>x / 2 powr of_int (k - 52)\<bar> = \<bar>x\<bar> / 2 powr of_int (k - 52)" by simp
  also have "\<dots> < 2 powr of_int (k + 1) / 2 powr of_int (k - 52)"
    using hi u by (simp add: divide_strict_right_mono)
  also have "\<dots> = 2 powr 53" by (simp add: powr_diff [symmetric])
  finally have nb: "\<bar>of_int n :: real\<bar> < 2 powr 53 + 1 / 2" by simp
  have "\<bar>of_int n * 2 powr of_int (k - 52)\<bar> = \<bar>of_int n :: real\<bar> * 2 powr of_int (k - 52)"
    by (simp add: abs_mult)
  also have "\<dots> < (2 powr 53 + 1 / 2) * 2 powr of_int (k - 52)"
    using nb u by (simp add: mult_strict_right_mono)
  also have "\<dots> \<le> (2 powr 54) * 2 powr of_int (k - 52)"
    by (intro mult_right_mono) (auto simp: powr_numeral)
  also have "\<dots> = 2 powr (54 + of_int (k - 52))" by (simp only: powr_add)
  also have "\<dots> = 2 powr of_int (k + 2)" by (simp add: add.commute)
  also have "\<dots> \<le> 2 powr 1024" using range by (intro powr_mono) auto
  finally have "\<bar>of_int n * 2 powr of_int (k - 52)\<bar> < (2::real) ^ 1024" by (simp add: powr_numeral)
  then have small: "\<not> (2::real) ^ 1024 \<le> \<bar>of_int n * 2 powr of_int (k - 52)\<bar>" by (simp only: not_le)
  show ?thesis unfolding binary64_def Let_def e r by (simp only: x0 small if_False)
qed

lemma binary64_underflow:
  assumes pos: "0 < \<bar>x\<bar>" and tiny: "\<bar>x\<bar> < 2 powr (- 1075)"
  shows "binary64 x = Num 0"
proof -
  have x0: "x \<noteq> 0" using pos by auto
  have "log 2 \<bar>x\<bar> < of_int (- 1075)" using pos tiny by (simp add: log_less_iff)
  then have "\<lfloor>log 2 \<bar>x\<bar>\<rfloor> < - 1075" by (simp only: floor_less_iff)
  then have "\<lfloor>log 2 \<bar>x\<bar>\<rfloor> - 52 \<le> - 1074" by linarith
  then have e: "max (\<lfloor>log 2 \<bar>x\<bar>\<rfloor> - 52) (- 1074) = - 1074" by (rule max_absorb2)
  have "\<bar>x\<bar> / 2 powr (- 1074) < 2 powr (- 1075) / 2 powr (- 1074)"
    using tiny by (simp add: divide_strict_right_mono)
  also have "\<dots> = 2 powr (- 1)" by (simp add: powr_diff [symmetric])
  also have "\<dots> = 1 / 2" by (simp add: powr_minus_divide)
  finally have "\<bar>x / 2 powr of_int (- 1074) - of_int 0\<bar> < 1 / 2" by simp
  then have r: "roundToEven (x / 2 powr of_int (- 1074)) = 0" by (rule roundToEven_near)
  show ?thesis unfolding binary64_def Let_def e r using x0 by simp
qed

lemma binary64_zero: "binary64 0 = Num 0"
  by (simp add: binary64_def)

lemma binary64_small_int: "binary64 1 = Num 1" "binary64 2 = Num 2" "binary64 3 = Num 3"
proof -
  show "binary64 1 = Num 1" using binary64_eqI [of 0 1 "2 ^ 52"] by (simp add: powr_minus powr_numeral)
  show "binary64 2 = Num 2" using binary64_eqI [of 1 2 "2 ^ 52"] by (simp add: powr_minus powr_numeral)
  show "binary64 3 = Num 3" using binary64_eqI [of 1 3 "3 * 2 ^ 51"] by (simp add: powr_minus powr_numeral)
qed

lemma binary64_sqrt3: "binary64 (sqrt 3) = Num (7800463371553962 / 2 ^ 52)"
proof -
  have scaled: "sqrt (3 * (2 ^ 52)\<^sup>2) = sqrt 3 * 2 ^ 52"
    by (simp only: real_sqrt_mult real_sqrt_abs) simp
  have lo: "7800463371553962 - 1 / 2 < sqrt 3 * 2 ^ 52"
  proof -
    have "(7800463371553962 - 1 / 2)\<^sup>2 < (3 * (2 ^ 52)\<^sup>2 :: real)" by (simp add: power2_eq_square)
    then have "7800463371553962 - 1 / 2 < sqrt (3 * (2 ^ 52)\<^sup>2)" by (rule real_less_rsqrt)
    then show ?thesis by (simp only: scaled)
  qed
  have hi: "sqrt 3 * 2 ^ 52 < 7800463371553962 + 1 / 2"
  proof -
    have "(3 * (2 ^ 52)\<^sup>2 :: real) < (7800463371553962 + 1 / 2)\<^sup>2" by (simp add: power2_eq_square)
    then have "sqrt (3 * (2 ^ 52)\<^sup>2) < 7800463371553962 + 1 / 2" by (intro real_less_lsqrt) simp_all
    then show ?thesis by (simp only: scaled)
  qed
  have one: "1 \<le> sqrt 3" by simp
  have two: "sqrt 3 < 2" by (intro real_less_lsqrt) simp_all
  have ulp: "(2::real) powr of_int (0 - 52) = 1 / 2 ^ 52" by (simp add: powr_minus_divide powr_numeral)
  have "sqrt 3 / 2 powr of_int (0 - 52) = sqrt 3 * 2 ^ 52" unfolding ulp by simp
  then have "\<bar>sqrt 3 / 2 powr of_int (0 - 52) - of_int 7800463371553962\<bar> < 1 / 2"
    using lo hi by (simp only: abs_less_iff) simp
  with one two have "binary64 (sqrt 3) = Num (of_int 7800463371553962 * 2 powr of_int (0 - 52))"
    by (intro binary64_eqI) simp_all
  then show ?thesis unfolding ulp by simp
qed

lemma binary64_product:
  "binary64 (7800463371553962 / 2 ^ 52 * (7800463371553962 / 2 ^ 52)) = Num (6755399441055743 / 2 ^ 51)"
  using binary64_eqI [of 1 "7800463371553962 / 2 ^ 52 * (7800463371553962 / 2 ^ 52)" 6755399441055743]
  by (simp add: powr_minus powr_numeral)

lemma binary64_quotient: "binary64 (3 / (6755399441055743 / 2 ^ 51)) = Num (1 + 1 / 2 ^ 52)"
  using binary64_eqI [of 0 "3 / (6755399441055743 / 2 ^ 51)" "2 ^ 52 + 1"]
  by (simp add: powr_minus powr_numeral)

lemma norm_underflow:
  assumes "0 < t" and "t * t < 2 powr (- 1075)"
  shows "calculateVectorNorm [Num t, Num 0] = Num 0"
proof -
  have "binary64 (t * t) = Num 0" using assms by (intro binary64_underflow) simp_all
  then show ?thesis
    by (simp add: calculateVectorNorm_def js_add_def js_mul_def Math_sqrt_def binary64_zero)
qed

lemma norm_of_tiny: "calculateVectorNorm [Num (1 / 2 ^ 600), Num 0] = Num 0"
  by (rule norm_underflow) (simp_all add: powr_minus_divide powr_numeral)

text \<open>
  Claim C5 is violated by the code. The function returns the rounded quotient of rounded
  operands. For \<open>[1, 1, 1]\<close> against itself the dot product is 3, either norm is the double
  nearest to \<open>sqrt 3\<close>, their rounded product is the double just below 3, and the
  rounded quotient is \<open>1 + 2 ^ (- 52)\<close>, printed 1.0000000000000002: a value above 1. For
  \<open>[2 ^ (- 600), 0]\<close> against \<open>[1, 0]\<close> the square \<open>2 ^ (- 1200)\<close> rounds to 0, the computed
  norm is 0 and the function returns 0, although the Euclidean norm of the vector is not
  zero and the cosine of the two vectors is 1.
\<close>

theorem cosine_similarity_exceeds_one:
  "calculateCosineSimilarity [Num 1, Num 1, Num 1] [Num 1, Num 1, Num 1] = Inr (Num (1 + 1 / 2 ^ 52)) \<and>
   calculateCosineSimilarity [Num (1 / 2 ^ 600), Num 0] [Num 1, Num 0] = Inr (Num 0)"
proof
  define r :: real where "r = 7800463371553962 / 2 ^ 52"
  define p :: real where "p = 6755399441055743 / 2 ^ 51"
  have root: "binary64 (sqrt 3) = Num r" unfolding r_def by (rule binary64_sqrt3)
  have prod: "binary64 (r * r) = Num p" unfolding r_def p_def by (rule binary64_product)
  have quot: "binary64 (3 / p) = Num (1 + 1 / 2 ^ 52)" unfolding p_def by (rule binary64_quotient)
  have r0: "r \<noteq> 0" "p \<noteq> 0" by (simp_all add: r_def p_def)
  have norm: "calculateVectorNorm [Num 1, Num 1, Num 1] = Num r"
    by (simp add: calculateVectorNorm_def js_add_def js_mul_def Math_sqrt_def binary64_small_int root)
  have dot: "foldl (\<lambda>sum (val, i). js_add sum (js_mul val ([Num 1, Num 1, Num 1] ! i))) (Num 0)
               (zip [Num 1, Num 1, Num 1] [0..<length [Num 1, Num 1, Num 1]]) = Num 3"
    by (simp add: upt_rec js_add_def js_mul_def binary64_small_int)
  show "calculateCosineSimilarity [Num 1, Num 1, Num 1] [Num 1, Num 1, Num 1] = Inr (Num (1 + 1 / 2 ^ 52))"
    unfolding calculateCosineSimilarity_def Let_def dot norm
    using r0 by (simp add: js_div_def js_mul_def prod quot)
  show "calculateCosineSimilarity [Num (1 / 2 ^ 600), Num 0] [Num 1, Num 0] = Inr (Num 0)"
    unfolding calculateCosineSimilarity_def Let_def norm_of_tiny by simp
qed

text \<open>The error is raised exactly for vectors of unequal length.\<close>

lemma cosineSimilarity_dimension_mismatch:
  "(calculateCosineSimilarity u v = Inl DimensionMismatch) = (length u \<noteq> length v)"
  by (simp add: calculateCosineSimilarity_def Let_def)

subsection \<open>Trait inference\<close>

lemma profileOf_simps:
  "profileOf ''ostrich'' = Own \<lparr> awareness = 0.2, affect = 0.0, agency = 0.2, time = 0.0,
      relationality = 0.0, posture = 0.0 \<rparr>"
  "profileOf ''apocaloptimist'' = Own \<lparr> awareness = 0.9, affect = 0.8, agency = 0.9, time = 1.0,
      relationality = 0.0, posture = 1.0 \<rparr>"
  "profileOf ''prepper'' = Own \<lparr> awareness = 0.9, affect = 0.0, agency = 0.9, time = 1.0,
      relationality = 0.0, posture = 1.0 \<rparr>"
  "profileOf ''doomer'' = Absent"
  "profileOf ''constructor'' = Inherited"
  by (simp_all add: profileOf_def getProperty_def OBJECT_PROTOTYPE_def ARCHETYPE_TRAIT_PROFILES_def)

text \<open>
  Claim C6 is violated by the code. \<^verbatim>\<open>ARCHETYPE_TRAIT_PROFILES[archetypeId]\<close> finds, for
  the id \<^verbatim>\<open>constructor\<close>, the function every object inherits, and \<^verbatim>\<open>!profile\<close> does
  not hold of it. The catalogue has no profile under that id, so that no archetype of the
  score map \<^verbatim>\<open>{constructor: 5}\<close> has both a positive score and a catalogued profile, and
  the vector returned is not the zero vector: each of its six components is NaN.
\<close>

theorem inferUserTraitVector_inherited_profile:
  "map_of ARCHETYPE_TRAIT_PROFILES ''constructor'' = None \<and>
   contributing [(''constructor'', 5)] = [] \<and>
   inferUserTraitVector [(''constructor'', 5)] = [NaN, NaN, NaN, NaN, NaN, NaN]"
  by (simp add: inferUserTraitVector_def inferStep_def profileOf_simps undefinedDimensions_def
      contributing_def ARCHETYPE_TRAIT_PROFILES_def)

lemma contributing_Cons:
  "contributing ((k, s) # es) =
     (case map_of ARCHETYPE_TRAIT_PROFILES k of
        Some profile \<Rightarrow> if 0 < s then [(s, profile)] else [] | None \<Rightarrow> [])
     @ contributing es"
  by (simp add: contributing_def)

lemma profileOf_ordinary:
  "k \<notin> set OBJECT_PROTOTYPE \<Longrightarrow>
   profileOf k = (case map_of ARCHETYPE_TRAIT_PROFILES k of Some profile \<Rightarrow> Own profile | None \<Rightarrow> Absent)"
  by (simp add: profileOf_def getProperty_def)

lemma foldl_inferStep:
  assumes "\<forall>(k, s) \<in> set scores. 0 < s \<longrightarrow> k \<notin> set OBJECT_PROTOTYPE"
  shows "foldl inferStep ([Num a1, Num a2, Num a3, Num a4, Num a5, Num a6], totalScore) scores =
     ([Num (a1 + (\<Sum>(s, p)\<leftarrow>contributing scores. s * awareness p)),
       Num (a2 + (\<Sum>(s, p)\<leftarrow>contributing scores. s * affect p)),
       Num (a3 + (\<Sum>(s, p)\<leftarrow>contributing scores. s * agency p)),
       Num (a4 + (\<Sum>(s, p)\<leftarrow>contributing scores. s * time p)),
       Num (a5 + (\<Sum>(s, p)\<leftarrow>contributing scores. s * relationality p)),
       Num (a6 + (\<Sum>(s, p)\<leftarrow>contributing scores. s * posture p))],
      totalScore + (\<Sum>(s, p)\<leftarrow>contributing scores. s))"
  using assms
proof (induction scores arbitrary: a1 a2 a3 a4 a5 a6 totalScore)
  case Nil
  show ?case by (simp add: contributing_def)
next
  case (Cons e es)
  obtain k s where e: "e = (k, s)" by (cases e)
  have rest: "\<forall>(k, s) \<in> set es. 0 < s \<longrightarrow> k \<notin> set OBJECT_PROTOTYPE" using Cons.prems by simp
  note IH = Cons.IH [OF rest]
  show ?case
  proof (cases "s \<le> 0")
    case True
    then have "inferStep ([Num a1, Num a2, Num a3, Num a4, Num a5, Num a6], totalScore) e =
                 ([Num a1, Num a2, Num a3, Num a4, Num a5, Num a6], totalScore)"
      "contributing (e # es) = contributing es"
      by (auto simp: inferStep_def e contributing_Cons split: option.splits)
    then show ?thesis by (simp add: IH)
  next
    case False
    then have s: "0 < s" by simp
    then have k: "k \<notin> set OBJECT_PROTOTYPE" using Cons.prems e by simp
    show ?thesis
    proof (cases "map_of ARCHETYPE_TRAIT_PROFILES k")
      case None
      then have "inferStep ([Num a1, Num a2, Num a3, Num a4, Num a5, Num a6], totalScore) e =
                 ([Num a1, Num a2, Num a3, Num a4, Num a5, Num a6], totalScore)"
        "contributing (e # es) = contributing es"
        using s by (simp_all add: inferStep_def e contributing_Cons profileOf_ordinary [OF k])
      then show ?thesis by (simp add: IH)
    next
      case (Some p)
      then have c: "contributing (e # es) = (s, p) # contributing es"
        using s by (simp add: e contributing_Cons)
      have "inferStep ([Num a1, Num a2, Num a3, Num a4, Num a5, Num a6], totalScore) e =
              ([Num (a1 + s * awareness p), Num (a2 + s * affect p), Num (a3 + s * agency p),
                Num (a4 + s * time p), Num (a5 + s * relationality p), Num (a6 + s * posture p)],
               totalScore + s)"
        using s Some by (simp add: inferStep_def e profileOf_ordinary [OF k] dimensionsOf_def)
      then show ?thesis unfolding foldl_Cons c by (simp add: IH algebra_simps)
    qed
  qed
qed

lemma contributing_positive: "(s, p) \<in> set (contributing scores) \<Longrightarrow> 0 < s"
  by (auto simp: contributing_def split: option.splits if_splits)

lemma contributing_total:
  "0 < (\<Sum>(s, p)\<leftarrow>contributing scores. s) \<longleftrightarrow> contributing scores \<noteq> []"
proof -
  have "\<And>xs :: (real \<times> traitProfile) list. (\<forall>e\<in>set xs. 0 < fst e) \<Longrightarrow>
         (0 < (\<Sum>(s, p)\<leftarrow>xs. s)) = (xs \<noteq> [])"
  proof -
    fix xs :: "(real \<times> traitProfile) list"
    assume "\<forall>e\<in>set xs. 0 < fst e"
    then have "xs \<noteq> [] \<longrightarrow> 0 < (\<Sum>(s, p)\<leftarrow>xs. s)"
      by (induction xs) (auto simp: add_pos_nonneg split: prod.splits)
    then show "(0 < (\<Sum>(s, p)\<leftarrow>xs. s)) = (xs \<noteq> [])" by auto
  qed
  moreover have "\<forall>e\<in>set (contributing scores). 0 < fst e"
    using contributing_positive by auto
  ultimately show ?thesis by blast
qed

text \<open>
  Where no id with a positive score is a name that every object inherits, the claim
  holds: each component is the score-weighted mean over the contributing archetypes, and
  the vector is zero when there is none.
\<close>

lemma inferUserTraitVector_for_ordinary_ids:
  assumes "\<forall>(k, s) \<in> set scores. 0 < s \<longrightarrow> k \<notin> set OBJECT_PROTOTYPE"
  shows "inferUserTraitVector scores =
     (if contributing scores = [] then [Num 0, Num 0, Num 0, Num 0, Num 0, Num 0]
      else map (\<lambda>d. Num (weightedMean d scores))
             [awareness, affect, agency, time, relationality, posture])"
proof (cases "contributing scores = []")
  case True
  then show ?thesis
    by (simp add: inferUserTraitVector_def foldl_inferStep [OF assms])
next
  case False
  then have "0 < (\<Sum>(s, p)\<leftarrow>contributing scores. s)" by (simp add: contributing_total)
  with False show ?thesis
    by (simp add: inferUserTraitVector_def foldl_inferStep [OF assms] weightedMean_def)
qed

text \<open>The equal mix of the tests, extended by an uncatalogued id and a negative score,
  which change nothing; and a map without any contributing archetype.\<close>

lemma inferUserTraitVector_equal_mix:
  "inferUserTraitVector [(''ostrich'', 5), (''apocaloptimist'', 5), (''doomer'', 7), (''prepper'', - 3)] =
     [Num 0.55, Num 0.4, Num 0.55, Num 0.5, Num 0, Num 0.5] \<and>
   inferUserTraitVector [(''doomer'', 7), (''prepper'', 0)] = [Num 0, Num 0, Num 0, Num 0, Num 0, Num 0]"
proof -
  let ?S = "[(''ostrich'', 5), (''apocaloptimist'', 5), (''doomer'', 7), (''prepper'', - 3 :: real)]"
  let ?N = "[(''doomer'', 7), (''prepper'', 0 :: real)]"
  have "inferUserTraitVector ?S = [Num 0.55, Num 0.4, Num 0.55, Num 0.5, Num 0, Num 0.5]"
    using inferUserTraitVector_for_ordinary_ids [of ?S]
    by (simp add: contributing_def weightedMean_def OBJECT_PROTOTYPE_def ARCHETYPE_TRAIT_PROFILES_def)
  moreover have "inferUserTraitVector ?N = [Num 0, Num 0, Num 0, Num 0, Num 0, Num 0]"
    using inferUserTraitVector_for_ordinary_ids [of ?N]
    by (simp add: contributing_def OBJECT_PROTOTYPE_def ARCHETYPE_TRAIT_PROFILES_def)
  ultimately show ?thesis by blast
qed

subsection \<open>Radar area of the unit hexagon\<close>

lemma hex_angles:
  "cos (pi / 3) = 1 / 2" "sin (pi / 3) = sqrt 3 / 2"
  "cos (2 * pi / 3) = - (1 / 2)" "sin (2 * pi / 3) = sqrt 3 / 2"
  "cos (4 * pi / 3) = - (1 / 2)" "sin (4 * pi / 3) = - (sqrt 3 / 2)"
  "cos (5 * pi / 3) = 1 / 2" "sin (5 * pi / 3) = - (sqrt 3 / 2)"
proof -
  show c1: "cos (pi / 3) = 1 / 2" by (rule cos_60)
  show s1: "sin (pi / 3) = sqrt 3 / 2" by (rule sin_60)
  have e2: "2 * pi / 3 = pi - pi / 3" by simp
  show "cos (2 * pi / 3) = - (1 / 2)" unfolding e2 cos_diff by (simp add: c1)
  show "sin (2 * pi / 3) = sqrt 3 / 2" unfolding e2 sin_diff by (simp add: s1)
  have e4: "4 * pi / 3 = pi + pi / 3" by simp
  show "cos (4 * pi / 3) = - (1 / 2)" unfolding e4 cos_add by (simp add: c1)
  show "sin (4 * pi / 3) = - (sqrt 3 / 2)" unfolding e4 sin_add by (simp add: s1)
  have e5: "5 * pi / 3 = 2 * pi - pi / 3" by simp
  show "cos (5 * pi / 3) = 1 / 2" unfolding e5 cos_diff by (simp add: c1)
  show "sin (5 * pi / 3) = - (sqrt 3 / 2)" unfolding e5 sin_diff by (simp add: s1)
qed

lemma upt6: "[0..<6] = [0, 1, 2, 3, 4, 5::nat]"
  by (simp add: upt_rec)

lemma length_dimensions: "length dimensions = 6"
  by (simp add: dimensions_def)

lemma area6:
  "calculateRadarChartArea [c0, c1, c2, c3, c4, c5] =
     \<bar>(c_x c0 * c_y c1 - c_x c1 * c_y c0) + (c_x c1 * c_y c2 - c_x c2 * c_y c1) +
      (c_x c2 * c_y c3 - c_x c3 * c_y c2) + (c_x c3 * c_y c4 - c_x c4 * c_y c3) +
      (c_x c4 * c_y c5 - c_x c5 * c_y c4) + (c_x c5 * c_y c0 - c_x c0 * c_y c5)\<bar> / 2"
proof -
  have "length [c0, c1, c2, c3, c4, c5] = 6" by simp
  then show ?thesis
    unfolding calculateRadarChartArea_def Let_def 
    by (simp only: upt6) simp
qed

lemma radarPoint_xy:
  "c_x (radarPoint tp ((d, p), 0)) = (if d = ''affect'' \<or> d = ''time'' then (p tp + 1) / 2 else p tp)"
  "c_y (radarPoint tp ((d, p), 0)) = 0"
  "c_x (radarPoint tp ((d, p), 1)) = (if d = ''affect'' \<or> d = ''time'' then (p tp + 1) / 2 else p tp) * (1 / 2)"
  "c_y (radarPoint tp ((d, p), 1)) = (if d = ''affect'' \<or> d = ''time'' then (p tp + 1) / 2 else p tp) * (sqrt 3 / 2)"
  "c_x (radarPoint tp ((d, p), 2)) = (if d = ''affect'' \<or> d = ''time'' then (p tp + 1) / 2 else p tp) * (- (1 / 2))"
  "c_y (radarPoint tp ((d, p), 2)) = (if d = ''affect'' \<or> d = ''time'' then (p tp + 1) / 2 else p tp) * (sqrt 3 / 2)"
  "c_x (radarPoint tp ((d, p), 3)) = (if d = ''affect'' \<or> d = ''time'' then (p tp + 1) / 2 else p tp) * (- 1)"
  "c_y (radarPoint tp ((d, p), 3)) = 0"
  "c_x (radarPoint tp ((d, p), 4)) = (if d = ''affect'' \<or> d = ''time'' then (p tp + 1) / 2 else p tp) * (- (1 / 2))"
  "c_y (radarPoint tp ((d, p), 4)) = (if d = ''affect'' \<or> d = ''time'' then (p tp + 1) / 2 else p tp) * (- (sqrt 3 / 2))"
  "c_x (radarPoint tp ((d, p), 5)) = (if d = ''affect'' \<or> d = ''time'' then (p tp + 1) / 2 else p tp) * (1 / 2)"
  "c_y (radarPoint tp ((d, p), 5)) = (if d = ''affect'' \<or> d = ''time'' then (p tp + 1) / 2 else p tp) * (- (sqrt 3 / 2))"
  by (simp_all add: radarPoint_def Let_def hex_angles)

lemma radarCoordinates_Some:
  "calculateRadarChartCoordinates (Some tp) =
     Inr [radarPoint tp ((''awareness'', awareness), 0), radarPoint tp ((''affect'', affect), 1),
          radarPoint tp ((''agency'', agency), 2), radarPoint tp ((''time'', time), 3),
          radarPoint tp ((''relationality'', relationality), 4),
          radarPoint tp ((''posture'', posture), 5)]"
  unfolding calculateRadarChartCoordinates_def length_dimensions upt6
  by (simp add: dimensions_def)

lemma radarPoint_polar:
  "c_radius (radarPoint tp ((d, p), i)) =
     (if d = ''affect'' \<or> d = ''time'' then (p tp + 1) / 2 else p tp)"
  "c_angle (radarPoint tp ((d, p), i)) = (real i / 6) * 2 * pi"
  by (simp_all add: radarPoint_def Let_def)

text \<open>
  Claim C10. For the profile with all six dimensions at 1.0,
  \<open>calculateRadarChartCoordinates\<close> yields six points of radius 1 (affect and time being
  rescaled to \<open>(1 + 1) / 2 = 1\<close>) at the angles \<open>i / 6 * 2 * pi\<close>, and
  \<open>calculateRadarChartArea\<close> of them is \<open>3 * sqrt 3 / 2\<close>, over the reals.
\<close>

theorem unit_hexagon_area:
  "\<exists>cs. calculateRadarChartCoordinates (Some unitProfile) = Inr cs \<and>
        map c_radius cs = [1, 1, 1, 1, 1, 1] \<and>
        map c_angle cs = map (\<lambda>i. (real i / 6) * 2 * pi) [0..<6] \<and>
        calculateRadarChartArea cs = 3 * sqrt 3 / 2"
proof (intro exI conjI)
  show "calculateRadarChartCoordinates (Some unitProfile) =
     Inr [radarPoint unitProfile ((''awareness'', awareness), 0),
          radarPoint unitProfile ((''affect'', affect), 1),
          radarPoint unitProfile ((''agency'', agency), 2),
          radarPoint unitProfile ((''time'', time), 3),
          radarPoint unitProfile ((''relationality'', relationality), 4),
          radarPoint unitProfile ((''posture'', posture), 5)]"
    by (rule radarCoordinates_Some)
  show "map c_radius
          [radarPoint unitProfile ((''awareness'', awareness), 0),
           radarPoint unitProfile ((''affect'', affect), 1),
           radarPoint unitProfile ((''agency'', agency), 2),
           radarPoint unitProfile ((''time'', time), 3),
           radarPoint unitProfile ((''relationality'', relationality), 4),
           radarPoint unitProfile ((''posture'', posture), 5)] = [1, 1, 1, 1, 1, 1]"
    by (simp add: radarPoint_polar unitProfile_def)
  show "map c_angle
          [radarPoint unitProfile ((''awareness'', awareness), 0),
           radarPoint unitProfile ((''affect'', affect), 1),
           radarPoint unitProfile ((''agency'', agency), 2),
           radarPoint unitProfile ((''time'', time), 3),
           radarPoint unitProfile ((''relationality'', relationality), 4),
           radarPoint unitProfile ((''posture'', posture), 5)] =
        map (\<lambda>i. (real i / 6) * 2 * pi) [0..<6]"
    unfolding upt6 by (simp add: radarPoint_polar)
  show "calculateRadarChartArea
          [radarPoint unitProfile ((''awareness'', awareness), 0),
           radarPoint unitProfile ((''affect'', affect), 1),
           radarPoint unitProfile ((''agency'', agency), 2),
           radarPoint unitProfile ((''time'', time), 3),
           radarPoint unitProfile ((''relationality'', relationality), 4),
           radarPoint unitProfile ((''posture'', posture), 5)] = 3 * sqrt 3 / 2"
    unfolding area6 radarPoint_xy by (simp add: unitProfile_def)
qed

subsection \<open>The tie breaker leaves its inputs alone\<close>

lemma length_inferStep:
  "length (fst acc) = 6 \<Longrightarrow> length (fst (inferStep acc e)) = 6"
  by (cases acc; cases e)
     (simp add: inferStep_def dimensionsOf_def undefinedDimensions_def split: lookup.splits)

lemma length_foldl_inferStep:
  "length (fst acc) = 6 \<Longrightarrow> length (fst (foldl inferStep acc scores)) = 6"
  by (induction scores arbitrary: acc) (simp_all add: length_inferStep)

lemma length_inferUserTraitVector: "length (inferUserTraitVector scores) = 6"
  using length_foldl_inferStep [of "([Num 0, Num 0, Num 0, Num 0, Num 0, Num 0], 0)" scores]
  by (auto simp: inferUserTraitVector_def split: prod.splits)

lemma calculateCosineSimilarity_Inr:
  "length u = length v \<Longrightarrow> \<exists>s. calculateCosineSimilarity u v = Inr s"
  by (simp add: calculateCosineSimilarity_def Let_def)

lemma tieSimilarity_Inr:
  assumes "length utv = 6"
  shows "\<exists>s. tieSimilarity utv k = Inr (k, s)"
proof (cases "profileOf k")
  case (Own archetypeProfile)
  have "length utv = length (dimensionsOf archetypeProfile)"
    using assms by (simp add: dimensionsOf_def)
  from calculateCosineSimilarity_Inr [OF this] Own show ?thesis
    by (auto simp: tieSimilarity_def)
next
  case Inherited
  have "length utv = length undefinedDimensions"
    using assms by (simp add: undefinedDimensions_def)
  from calculateCosineSimilarity_Inr [OF this] Inherited show ?thesis
    by (auto simp: tieSimilarity_def)
next
  case Absent
  then show ?thesis by (simp add: tieSimilarity_def)
qed

lemma mapE_tieSimilarity:
  "length utv = 6 \<Longrightarrow> \<exists>sims. mapE (tieSimilarity utv) ids = Inr sims \<and> map fst sims = ids"
proof (induction ids)
  case Nil
  then show ?case by simp
next
  case (Cons k ks)
  from Cons obtain sims where "mapE (tieSimilarity utv) ks = Inr sims" "map fst sims = ks" by blast
  moreover from Cons.prems obtain s where "tieSimilarity utv k = Inr (k, s)"
    using tieSimilarity_Inr by blast
  ultimately show ?case by simp
qed

text \<open>
  Claim C8. For a dominant set of at least two ids and any score map, held in the store
  at two addresses, \<open>breakTieWithTraits\<close> returns a winner among the ids and leaves both
  inputs as they were: the score map has the same entries and the id list the same ids in
  the same order; indeed every cell that existed before the call is unchanged.
\<close>

theorem breakTieWithTraits_frame:
  assumes tiedRef: "tiedArchetypeIds < length h" and scoresRef: "allScores < length h"
      and tied: "h ! tiedArchetypeIds = IdArray ids"
      and scores: "h ! allScores = ScoreObject scores"
      and two: "2 \<le> length ids"
  shows "\<exists>winner h'. breakTieWithTraits_heap tiedArchetypeIds allScores h = (Inr winner, h') \<and>
           h' ! tiedArchetypeIds = IdArray ids \<and> h' ! allScores = ScoreObject scores \<and>
           take (length h) h' = h \<and> winner \<in> set ids"
proof -
  let ?utv = "inferUserTraitVector scores"
  from mapE_tieSimilarity [OF length_inferUserTraitVector, of scores ids]
  obtain sims where sims: "mapE (tieSimilarity ?utv) ids = Inr sims" "map fst sims = ids"
    by blast
  let ?sorted = "sort_by similarityCompare sims"
  let ?h' = "(h @ [SimilarityArray sims])[length h := SimilarityArray ?sorted]"
  have "length ?sorted = length ids"
    using sims by (metis length_map length_sort_by)
  with two obtain best rest where top: "?sorted = best # rest"
    by (cases ?sorted) auto
  have "best \<in> set sims" using top by (metis list.set_intros(1) set_sort_by)
  then have win: "fst best \<in> set ids" using sims by force
  have run: "breakTieWithTraits_heap tiedArchetypeIds allScores h = (Inr (fst best), ?h')"
    using tiedRef scoresRef tied scores sims top
    by (simp add: breakTieWithTraits_heap_def Let_def)
  have frame: "?h' ! tiedArchetypeIds = IdArray ids" "?h' ! allScores = ScoreObject scores"
    "take (length h) ?h' = h"
    using tiedRef scoresRef tied scores by (simp_all add: nth_append)
  from run frame win show ?thesis by blast
qed

text \<open>The tie of the repository's test.\<close>

theorem breakTieWithTraits_frame_witness:
  "\<exists>winner h'.
     breakTieWithTraits_heap 0 1
       [IdArray [''ostrich'', ''prepper''],
        ScoreObject [(''ostrich'', 5), (''prepper'', 5), (''apocaloptimist'', 10)]] = (Inr winner, h') \<and>
     h' ! 0 = IdArray [''ostrich'', ''prepper''] \<and>
     h' ! 1 = ScoreObject [(''ostrich'', 5), (''prepper'', 5), (''apocaloptimist'', 10)] \<and>
     take (length [IdArray [''ostrich'', ''prepper''],
        ScoreObject [(''ostrich'', 5), (''prepper'', 5), (''apocaloptimist'', 10)]]) h' =
       [IdArray [''ostrich'', ''prepper''],
        ScoreObject [(''ostrich'', 5), (''prepper'', 5), (''apocaloptimist'', 10)]] \<and>
     winner \<in> set [''ostrich'', ''prepper'']"
proof -
  let ?ids = "[''ostrich'', ''prepper'']"
  let ?scores = "[(''ostrich'', 5), (''prepper'', 5), (''apocaloptimist'', 10 :: real)]"
  let ?h = "[IdArray ?ids, ScoreObject ?scores]"
  have a: "0 < length ?h" "1 < length ?h" "?h ! 0 = IdArray ?ids" "?h ! 1 = ScoreObject ?scores"
    "2 \<le> length ?ids"
    by simp_all
  from breakTieWithTraits_frame [OF a] show ?thesis .
qed

subsection \<open>scoreQuiz on a primary archetype without a trait profile\<close>

lemma doomer_scores:
  "calculateArchetypeScores doomerQuiz doomerResponses =
     Inr (scoreObject
     [(''ostrich'', 0), (''blissed-out-yogi'', 0), (''illusionist'', 0),
      (''normalizer'', 0), (''prepper'', 0), (''prophet-of-doom'', 0),
      (''alt-right-collapse-bro'', 0), (''evangelical-nationalist'', 0),
      (''apocaloptimist'', 0), (''trickster'', 0), (''woke-lefty-socialist'', 0),
      (''salvager'', 0), (''sacred-keeper'', 0), (''everyday-hustler'', 0),
      (''already-collapsed'', 0), (''extracted'', 0), (''child-witness'', 0),
      (''opportunist-elite'', 0), (''conspiracy-theorist'', 0), (''doomer'', 3)])"
  by (simp add: calculateArchetypeScores_def doomerQuiz_def doomerResponses_def
      buildQuestionMap_def lookupQuestion_def scoreResponse_def addPoints_def getProperty_def
      setProperty_def OBJECT_PROTOTYPE_def scoreObject_def initialScores_list)

lemma doomer_dominant:
  "determineDominantArchetypes
     [(''ostrich'', 0), (''blissed-out-yogi'', 0), (''illusionist'', 0),
      (''normalizer'', 0), (''prepper'', 0), (''prophet-of-doom'', 0),
      (''alt-right-collapse-bro'', 0), (''evangelical-nationalist'', 0),
      (''apocaloptimist'', 0), (''trickster'', 0), (''woke-lefty-socialist'', 0),
      (''salvager'', 0), (''sacred-keeper'', 0), (''everyday-hustler'', 0),
      (''already-collapsed'', 0), (''extracted'', 0), (''child-witness'', 0),
      (''opportunist-elite'', 0), (''conspiracy-theorist'', 0), (''doomer'', 3)]
     TIE_TOLERANCE =
     Inr \<lparr> dr_dominant = [''doomer''], dr_scores = [(''doomer'', 3)], dr_maxScore = 3,
           dr_threshold = 2.85, dr_hasTie = False, dr_variance = 3 \<rparr>"
  by (simp add: determineDominantArchetypes_eval)

lemma doomer_traits:
  "inferUserTraitVector
     [(''ostrich'', 0), (''blissed-out-yogi'', 0), (''illusionist'', 0),
      (''normalizer'', 0), (''prepper'', 0), (''prophet-of-doom'', 0),
      (''alt-right-collapse-bro'', 0), (''evangelical-nationalist'', 0),
      (''apocaloptimist'', 0), (''trickster'', 0), (''woke-lefty-socialist'', 0),
      (''salvager'', 0), (''sacred-keeper'', 0), (''everyday-hustler'', 0),
      (''already-collapsed'', 0), (''extracted'', 0), (''child-witness'', 0),
      (''opportunist-elite'', 0), (''conspiracy-theorist'', 0), (''doomer'', 3)] =
     [Num 0, Num 0, Num 0, Num 0, Num 0, Num 0]"
  by (simp add: inferUserTraitVector_def inferStep_def profileOf_simps)

lemma doomer_normalized:
  "\<exists>normalizedScores. normalizeScores scores doomerQuiz = Inr normalizedScores"
  by (simp add: normalizeScores_def doomerQuiz_def)

lemma makeVisualizations_uncatalogued:
  "profileOf archetypeId = Absent \<Longrightarrow>
   makeVisualizations scores userTraitProfile (Some archetypeId) = Inl TypeError"
  by (simp add: makeVisualizations_def calculateRadarChartCoordinates_def Let_def keyOf_def)

text \<open>
  Claim C7 is violated by the code. On the quiz above the dominance resolver succeeds
  with the single dominant archetype \<open>doomer\<close>, which has no catalogued profile; with the
  default options \<open>scoreQuiz\<close> then passes \<^verbatim>\<open>ARCHETYPE_TRAIT_PROFILES['doomer']\<close>, that
  is \<^verbatim>\<open>undefined\<close>, to \<open>calculateRadarChartCoordinates\<close> and ends in a TypeError
  instead of returning a result.
\<close>

theorem scoreQuiz_uncatalogued_primary:
  "(\<exists>scores. calculateArchetypeScores doomerQuiz doomerResponses = Inr (scoreObject scores) \<and>
      determineDominantArchetypes scores TIE_TOLERANCE =
        Inr \<lparr> dr_dominant = [''doomer''], dr_scores = [(''doomer'', 3)], dr_maxScore = 3,
              dr_threshold = 2.85, dr_hasTie = False, dr_variance = 3 \<rparr>) \<and>
   profileOf ''doomer'' = Absent \<and>
   scoreQuiz doomerQuiz doomerResponses defaultOptions = Inl TypeError"
proof -
  let ?scores =
    "[(''ostrich'', 0), (''blissed-out-yogi'', 0), (''illusionist'', 0),
      (''normalizer'', 0), (''prepper'', 0), (''prophet-of-doom'', 0),
      (''alt-right-collapse-bro'', 0), (''evangelical-nationalist'', 0),
      (''apocaloptimist'', 0), (''trickster'', 0), (''woke-lefty-socialist'', 0),
      (''salvager'', 0), (''sacred-keeper'', 0), (''everyday-hustler'', 0),
      (''already-collapsed'', 0), (''extracted'', 0), (''child-witness'', 0),
      (''opportunist-elite'', 0), (''conspiracy-theorist'', 0), (''doomer'', 3)] :: scoreMap"
  obtain normalizedScores where
    n: "normalizeScores ?scores doomerQuiz = Inr normalizedScores"
    using doomer_normalized by blast
  have p: "profileOf ''doomer'' = Absent" by (rule profileOf_simps)
  have "scoreQuiz doomerQuiz doomerResponses defaultOptions = Inl TypeError"
    unfolding scoreQuiz_def Let_def doomer_scores
    by (simp add: defaultOptions_def numericScores_scoreObject doomer_dominant n doomer_traits
        makeVisualizations_uncatalogued [OF p])
  with doomer_scores doomer_dominant p show ?thesis by blast
qed

text \<open>With the visualizations switched off the same input is scored without error.\<close>

lemma scoreQuiz_without_visualizations:
  "\<exists>result. scoreQuiz doomerQuiz doomerResponses
             (defaultOptions \<lparr> o_includeVisualizations := Some False \<rparr>) = Inr (Some result) \<and>
            res_primary result = Some ''doomer'' \<and> res_primaryScore result = Some 3 \<and>
            res_visualizations result = None"
proof -
  let ?scores =
    "[(''ostrich'', 0), (''blissed-out-yogi'', 0), (''illusionist'', 0),
      (''normalizer'', 0), (''prepper'', 0), (''prophet-of-doom'', 0),
      (''alt-right-collapse-bro'', 0), (''evangelical-nationalist'', 0),
      (''apocaloptimist'', 0), (''trickster'', 0), (''woke-lefty-socialist'', 0),
      (''salvager'', 0), (''sacred-keeper'', 0), (''everyday-hustler'', 0),
      (''already-collapsed'', 0), (''extracted'', 0), (''child-witness'', 0),
      (''opportunist-elite'', 0), (''conspiracy-theorist'', 0), (''doomer'', 3)] :: scoreMap"
  obtain normalizedScores where
    n: "normalizeScores ?scores doomerQuiz = Inr normalizedScores"
    using doomer_normalized by blast
  have own: "getProperty ?scores ''doomer'' = Own 3" by (simp add: getProperty_def)
  show ?thesis
    unfolding scoreQuiz_def Let_def doomer_scores
    by (simp add: defaultOptions_def numericScores_scoreObject doomer_dominant n doomer_traits
        keyOf_def own assembleResult_def)
qed

subsection \<open>The validators\<close>

text \<open>Whenever a validator returns, the flag says whether the list of violations is empty.\<close>

lemma validateQuizData_valid:
  "validateQuizData questions = Inr r \<Longrightarrow> vr_valid r = (vr_errors r = [])"
  by (auto simp: validateQuizData_def Let_def split: jsval.splits sum.splits)

lemma validateUserResponses_valid:
  "validateUserResponses questions userResponses = Inr r \<Longrightarrow> vr_valid r = (vr_errors r = [])"
  by (auto simp: validateUserResponses_def Let_def split: jsval.splits sum.splits)

text \<open>
  Claim C9 is violated by the code. \<open>validateQuizData\<close> records that the \<^verbatim>\<open>answers\<close>
  of a question are not an array and then, guarded only by \<^verbatim>\<open>if (q.answers)\<close>, calls
  \<^verbatim>\<open>q.answers.forEach\<close> on them: for the question \<^verbatim>\<open>{id: 'q1', text: 'Q', answers: {}}\<close>
  it raises a TypeError instead of returning \<open>{valid, errors}\<close>. \<open>validateUserResponses\<close>
  raises on a response that points to a question without \<^verbatim>\<open>answers\<close>.
\<close>

theorem validators_raise:
  "validateQuizData
     (JArr [JObj [(''id'', JStr ''q1''), (''text'', JStr ''Q''), (''answers'', JObj [])]]) =
     Inl TypeError \<and>
   validateUserResponses
     (JArr [JObj [(''id'', JStr ''q1''), (''text'', JStr ''Q'')]])
     (JArr [JObj [(''questionId'', JStr ''q1''), (''answerId'', JStr ''a'')]]) = Inl TypeError"
  by (simp add: validateQuizData_def checkQuestion_def validateUserResponses_def addQuestion_def
      readQuestion_def checkResponse_def Let_def)

text \<open>Two inputs of the repository's tests, for comparison: a well-formed question, and
  a question without id and without answers, which is reported and not raised.\<close>

lemma validateQuizData_mock:
  "validateQuizData
     (JArr [JObj [(''id'', JNum 1), (''text'', JStr ''How do you view collapse?''),
                  (''answers'', JArr [JObj [(''id'', JStr ''a''), (''text'', JStr ''What collapse?''),
                                           (''archetypeScores'', JObj [(''ostrich'', JNum 3)])]])]]) =
     Inr \<lparr> vr_valid = True, vr_errors = [] \<rparr>"
  by (simp add: validateQuizData_def checkQuestion_def checkAnswer_def Let_def)

lemma validateQuizData_no_answers:
  "validateQuizData (JArr [JObj [(''text'', JStr ''Question''), (''answers'', JArr [])]]) =
     Inr \<lparr> vr_valid = False,
           vr_errors = [''Question at index 0 missing id'',
                        ''Question 0 must have at least one answer''] \<rparr>"
  by (simp add: validateQuizData_def checkQuestion_def checkAnswer_def Let_def orElse_def showInt_def
      showNat.simps [of 0])

end
